theory Spec2Isabelle
  imports Complex_Main "HOL-Library.Word"
begin

unbundle bit_operations_syntax

section \<open>Navico radar receive: data model\<close>

text \<open>
  The embedding follows \<^verbatim>\<open>src/navico/NavicoReceive.cpp\<close>. A datagram is the receive
  buffer \<^verbatim>\<open>UINT8 data[sizeof(radar_frame_pkt)]\<close> of \<^verbatim>\<open>NavicoReceive::Entry\<close> (a list of
  bytes) together with the length \<^verbatim>\<open>len\<close> that \<^verbatim>\<open>recvfrom\<close> returned. Multi-byte fields
  are little-endian and the structures are byte-packed, as the \<^verbatim>\<open>#pragma pack(push, 1)\<close> of
  the source says.
\<close>

type_synonym UINT8 = "8 word"

text \<open>
  Constants and machine operations that the two source files use and do not declare
  (they live in headers outside the sources at hand) are parameters of the model:
  \<^verbatim>\<open>RETURNS_PER_LINE\<close>, \<^verbatim>\<open>WATCHDOG_TIMEOUT\<close>, \<^verbatim>\<open>DATA_TIMEOUT\<close>, \<^verbatim>\<open>AUTO_RANGE\<close>, and the
  rounding \<open>fl_double\<close> of a real number to the \<^verbatim>\<open>double\<close> that represents it.
\<close>

record platform =
  RETURNS_PER_LINE :: nat
  WATCHDOG_TIMEOUT :: int
  DATA_TIMEOUT :: int
  AUTO_RANGE :: int
  fl_double :: "real \<Rightarrow> real"

text \<open>
  What the model asks of the rounding to \<^verbatim>\<open>double\<close>: zero is exact, and on the magnitudes
  that the range computation meets the relative error is at most \<^verbatim>\<open>2^-53\<close>, the unit
  roundoff of rounding to nearest with a significand of 53 bits.
\<close>

definition double_rounding :: "(real \<Rightarrow> real) \<Rightarrow> bool" where
  "double_rounding fl \<longleftrightarrow>
     fl 0 = 0 \<and> (\<forall>x. 1 \<le> x \<and> x \<le> 2 ^ 28 \<longrightarrow> \<bar>fl x - x\<bar> \<le> x / 2 ^ 53)"

text \<open>\<^verbatim>\<open>#define MILLIS_PER_SELECT 250\<close>\<close>

definition MILLIS_PER_SELECT :: int where
  "MILLIS_PER_SELECT = 250"

text \<open>
  Modelled from the spec: the constant \<^verbatim>\<open>MILLISECONDS_PER_SECOND\<close> is declared outside the
  sources at hand; the spec gives the poll quantum as 250 ms and the threshold as about two
  seconds of accumulated quanta, which is the value 1000 of the constant's name.
\<close>

definition MILLISECONDS_PER_SECOND :: int where
  "MILLISECONDS_PER_SECOND = 1000"

text \<open>
  C's integer division truncates towards zero; \<open>div\<close> on \<open>int\<close> rounds down.
\<close>

definition c_div :: "int \<Rightarrow> int \<Rightarrow> int" where
  "c_div a b = sgn a * sgn b * (\<bar>a\<bar> div \<bar>b\<bar>)"

text \<open>\<^verbatim>\<open>#define SECONDS_SELECT(x) ((x)*MILLISECONDS_PER_SECOND / MILLIS_PER_SELECT)\<close>\<close>

definition SECONDS_SELECT :: "int \<Rightarrow> int" where
  "SECONDS_SELECT x = c_div (x * MILLISECONDS_PER_SECOND) MILLIS_PER_SELECT"

text \<open>\<^verbatim>\<open>#define SPOKES (4096)\<close>\<close>

definition SPOKES :: int where
  "SPOKES = 4096"

text \<open>
  Modelled from the spec: the constant \<^verbatim>\<open>DEGREES_PER_ROTATION\<close> is declared outside the
  sources at hand; raw angles are on a 4096-point circle of 360 degrees.
\<close>

definition DEGREES_PER_ROTATION :: int where
  "DEGREES_PER_ROTATION = 360"

text \<open>The conversion \<^verbatim>\<open>(int)x\<close> of a \<^verbatim>\<open>double\<close> truncates towards zero.\<close>

definition c_int_of_double :: "real \<Rightarrow> int" where
  "c_int_of_double x = (if 0 \<le> x then \<lfloor>x\<rfloor> else \<lceil>x\<rceil>)"

text \<open>
  \<^verbatim>\<open>#define SCALE_DEGREES_TO_RAW(angle) ((int)((angle) * (double)SPOKES / DEGREES_PER_ROTATION))\<close>
\<close>

definition SCALE_DEGREES_TO_RAW :: "platform \<Rightarrow> real \<Rightarrow> int" where
  "SCALE_DEGREES_TO_RAW p angle =
     c_int_of_double (fl_double p (fl_double p (angle * real_of_int SPOKES)
                                   / real_of_int DEGREES_PER_ROTATION))"

text \<open>\<^verbatim>\<open>static UINT8 BR24MARK[] = {0x00, 0x44, 0x0d, 0x0e};\<close>\<close>

definition BR24MARK :: "UINT8 list" where
  "BR24MARK = [0x00, 0x44, 0x0d, 0x0e]"

text \<open>
  \<^verbatim>\<open>#define HEADING_TRUE_FLAG 0x4000\<close>,
  \<^verbatim>\<open>#define HEADING_MASK (SPOKES - 1)\<close>,
  \<^verbatim>\<open>#define HEADING_VALID(x) (((x) & ~(HEADING_TRUE_FLAG | HEADING_MASK)) == 0)\<close>.
  The argument is the \<^verbatim>\<open>short int heading_raw\<close>; the operators work on its promotion to
  \<^verbatim>\<open>int\<close>, which extends the sign (\<open>scast\<close>).
\<close>

definition HEADING_TRUE_FLAG :: "32 word" where
  "HEADING_TRUE_FLAG = 0x4000"

definition HEADING_MASK :: "32 word" where
  "HEADING_MASK = word_of_int (SPOKES - 1)"

definition HEADING_VALID :: "16 word \<Rightarrow> bool" where
  "HEADING_VALID x \<longleftrightarrow> (scast x AND NOT (HEADING_TRUE_FLAG OR HEADING_MASK)) = 0"

definition heading_true :: "16 word \<Rightarrow> bool" where
  "heading_true x \<longleftrightarrow> (scast x AND HEADING_TRUE_FLAG) \<noteq> 0"

text \<open>
  A two-byte field read as \<^verbatim>\<open>(f[1] << 8) | f[0]\<close>: as the \<^verbatim>\<open>int\<close> the expression
  computes, and as the \<^verbatim>\<open>short int\<close> it is assigned to.
\<close>

definition int_of_bytes :: "UINT8 \<Rightarrow> UINT8 \<Rightarrow> int" where
  "int_of_bytes b0 b1 = push_bit 8 (uint b1) OR uint b0"

definition short_of_bytes :: "UINT8 \<Rightarrow> UINT8 \<Rightarrow> 16 word" where
  "short_of_bytes b0 b1 = word_of_int (int_of_bytes b0 b1)"

subsection \<open>The shared radar state\<close>

text \<open>
  \<^verbatim>\<open>class radar_control_item { int value; int button; bool mod; void Update(int v); }\<close>
  of \<^verbatim>\<open>RadarInfo.h\<close>. The fields \<^verbatim>\<open>value\<close> and \<^verbatim>\<open>mod\<close> carry a suffix here, their names
  being taken in Isabelle.
\<close>

record 'a radar_control_item =
  value_item :: 'a
  button :: 'a
  mod_item :: bool

text \<open>
  Modelled from the spec: the body of \<^verbatim>\<open>radar_control_item::Update\<close> is outside the sources
  at hand. The spec: all mutations go through ControlValue's update operation, which
  records whether the value changed and must flag it for any dependent UI refresh.
\<close>

definition Update :: "'a \<Rightarrow> 'a radar_control_item \<Rightarrow> 'a radar_control_item" where
  "Update v c = c\<lparr>value_item := v, mod_item := (if v = value_item c then mod_item c else True)\<rparr>"

text \<open>
  Modelled from the spec: the enumeration of operating states is declared outside the
  sources at hand, which use its constants \<^verbatim>\<open>RADAR_OFF\<close>, \<^verbatim>\<open>RADAR_STANDBY\<close>,
  \<^verbatim>\<open>RADAR_WAKING_UP\<close> and \<^verbatim>\<open>RADAR_TRANSMIT\<close>; the spec lists these four states.
\<close>

datatype RadarState = RADAR_OFF | RADAR_STANDBY | RADAR_WAKING_UP | RADAR_TRANSMIT

text \<open>
  Modelled from the spec: \<^verbatim>\<open>receive_statistics\<close> is declared outside the sources at hand,
  which count in its members \<^verbatim>\<open>packets\<close>, \<^verbatim>\<open>broken_packets\<close>, \<^verbatim>\<open>spokes\<close>,
  \<^verbatim>\<open>broken_spokes\<close> and \<^verbatim>\<open>missing_spokes\<close>; the spec describes them as counters that only
  increase.
\<close>

record receive_statistics =
  packets :: int
  broken_packets :: int
  spokes :: int
  broken_spokes :: int
  missing_spokes :: int

text \<open>One call of \<^verbatim>\<open>RadarInfo::ProcessRadarSpoke\<close>, with its arguments.\<close>

record radar_spoke =
  spoke_angle :: int
  spoke_bearing :: int
  spoke_data :: "UINT8 list"
  spoke_len :: nat
  spoke_range_meters :: int
  spoke_time_rec :: int
  spoke_lat :: real
  spoke_lon :: real

text \<open>
  The part of \<^verbatim>\<open>RadarInfo\<close> (\<^verbatim>\<open>m_ri\<close>) that the receive thread writes. The calls of
  \<^verbatim>\<open>ProcessRadarSpoke\<close> and of \<^verbatim>\<open>ResetRadarImage\<close> are recorded in the order they are made
  (the latest first).
\<close>

record RadarInfo =
  m_radar_timeout :: int
  m_data_timeout :: int
  m_state :: "RadarState radar_control_item"
  m_statistics :: receive_statistics
  m_gain :: "int radar_control_item"
  m_rain :: "int radar_control_item"
  m_sea :: "int radar_control_item"
  m_target_boost :: "int radar_control_item"
  m_interference_rejection :: "int radar_control_item"
  m_target_expansion :: "int radar_control_item"
  m_range :: "int radar_control_item"
  m_bearing_alignment :: "int radar_control_item"
  m_antenna_height :: "int radar_control_item"
  m_scan_speed :: "int radar_control_item"
  m_noise_rejection :: "int radar_control_item"
  m_target_separation :: "int radar_control_item"
  m_side_lobe_suppression :: "int radar_control_item"
  m_local_interference_rejection :: "int radar_control_item"
  radar_spokes :: "radar_spoke list"
  image_resets :: nat

text \<open>
  The calls of \<^verbatim>\<open>m_pi->SetRadarHeading\<close>: with a heading (the raw value it is computed
  from and the true-heading flag), or without arguments.
\<close>

datatype heading_call = SetRadarHeading "16 word" bool | SetRadarHeadingNone

text \<open>\<^verbatim>\<open>NetworkAddress\<close>: an IPv4 address and a port.\<close>

record NetworkAddress =
  addr :: "32 word"
  port :: "16 word"

text \<open>
  The receiver object: \<^verbatim>\<open>m_ri\<close>, the members \<^verbatim>\<open>m_interface_addr\<close>, \<^verbatim>\<open>m_next_spoke\<close>, \<^verbatim>\<open>m_radar_status\<close> and
  \<^verbatim>\<open>m_status\<close>, the global \<^verbatim>\<open>g_first_receive\<close>, and what the plugin \<^verbatim>\<open>m_pi\<close> was told: the
  heading calls (the latest first) and the build information.
\<close>

record NavicoReceive =
  m_ri :: RadarInfo
  m_interface_addr :: NetworkAddress
  m_next_spoke :: int
  m_radar_status :: int
  m_status :: string
  g_first_receive :: bool
  heading_calls :: "heading_call list"
  radar_build_info :: "16 word list option"

text \<open>What \<^verbatim>\<open>ProcessFrame\<close> reads from its surroundings.\<close>

record frame_env =
  env_now :: int
  env_time_rec :: int
  env_lat :: real
  env_lon :: real
  ignore_radar_heading :: bool
  GetHeadingTrue :: "nat \<Rightarrow> real"

section \<open>The spoke-frame decoder\<close>

text \<open>
  \<^verbatim>\<open>struct radar_frame_pkt { UINT8 frame_hdr[8]; radar_line line[120]; }\<close>, where a
  \<^verbatim>\<open>radar_line\<close> is a 24-byte header (the union of \<^verbatim>\<open>common_header\<close>, \<^verbatim>\<open>br24_header\<close> and
  \<^verbatim>\<open>br4g_header\<close>) followed by \<^verbatim>\<open>UINT8 data[RETURNS_PER_LINE]\<close>.
\<close>

definition sizeof_frame_hdr :: nat where
  "sizeof_frame_hdr = 8"

definition sizeof_radar_line :: "platform \<Rightarrow> nat" where
  "sizeof_radar_line p = 24 + RETURNS_PER_LINE p"

definition sizeof_radar_frame_pkt :: "platform \<Rightarrow> nat" where
  "sizeof_radar_frame_pkt p = sizeof_frame_hdr + 120 * sizeof_radar_line p"

text \<open>
  Modelled from the spec: the macro \<^verbatim>\<open>MOD_SPOKES\<close> is declared outside the sources at hand.
  The spec: raw values on the 4096-point circle are halved to produce a 2048-point bearing
  (raw angle 4095 gives bearing index 2047, raw angle 4096 gives bearing index 0).
\<close>

definition MOD_SPOKES :: "int \<Rightarrow> int" where
  "MOD_SPOKES raw = raw mod 2048"

subsection \<open>Sequence tracking (lines 192 to 199)\<close>

definition add_missing_spokes :: "int \<Rightarrow> NavicoReceive \<Rightarrow> NavicoReceive" where
  "add_missing_spokes n = m_ri_update (m_statistics_update (missing_spokes_update (\<lambda>m. m + n)))"

definition track_spoke :: "int \<Rightarrow> NavicoReceive \<Rightarrow> NavicoReceive" where
  "track_spoke spoke r =
     (let r1 = (if m_next_spoke r \<ge> 0 \<and> spoke \<noteq> m_next_spoke r then
                  (if spoke > m_next_spoke r
                   then add_missing_spokes (spoke - m_next_spoke r) r
                   else add_missing_spokes (SPOKES + spoke - m_next_spoke r) r)
                else r)
      in r1\<lparr>m_next_spoke := (spoke + 1) mod SPOKES\<rparr>)"

subsection \<open>Range and angle of one line (lines 208 to 235)\<close>

text \<open>
  The range of the newer layout from its two \<^verbatim>\<open>short int\<close> fields, and the quotient
  \<^verbatim>\<open>range_raw / 4\<close>.
\<close>

definition br4g_range_raw :: "16 word \<Rightarrow> 16 word \<Rightarrow> int" where
  "br4g_range_raw large_range small_range =
     (if sint large_range = 0x80 then
        (if sint small_range = - 1 then 0 else sint small_range)
      else sint large_range * 256)"

text \<open>
  The range of the older layout:
  \<^verbatim>\<open>range_raw = ((range[2] & 0xff) << 16 | (range[1] & 0xff) << 8 | (range[0] & 0xff))\<close> and
  \<^verbatim>\<open>range_meters = (int)((double)range_raw * 10.0 / sqrt(2.0))\<close>. Every operation on
  \<^verbatim>\<open>double\<close> rounds its exact result with \<open>fl_double\<close>.
\<close>

definition br24_range_raw :: "UINT8 \<Rightarrow> UINT8 \<Rightarrow> UINT8 \<Rightarrow> int" where
  "br24_range_raw r0 r1 r2 =
     push_bit 16 (uint r2 AND 0xff) OR push_bit 8 (uint r1 AND 0xff) OR (uint r0 AND 0xff)"

definition br24_range_meters :: "platform \<Rightarrow> int \<Rightarrow> int" where
  "br24_range_meters p range_raw =
     c_int_of_double (fl_double p (fl_double p (fl_double p (real_of_int range_raw) * 10)
                                   / fl_double p (sqrt 2)))"

text \<open>
  The line that starts at offset \<open>off\<close> of the datagram: the triple
  \<open>(range_raw, angle_raw, range_meters)\<close>.
\<close>

definition decode_range_angle :: "platform \<Rightarrow> UINT8 list \<Rightarrow> nat \<Rightarrow> int \<times> int \<times> int" where
  "decode_range_angle p data off =
     (if [data ! (off + 4), data ! (off + 5), data ! (off + 6), data ! (off + 7)] = BR24MARK then
        (let range_raw = br24_range_raw (data ! (off + 12)) (data ! (off + 13)) (data ! (off + 14));
             angle_raw = int_of_bytes (data ! (off + 8)) (data ! (off + 9))
         in (range_raw, angle_raw, br24_range_meters p range_raw))
      else
        (let large_range = short_of_bytes (data ! (off + 6)) (data ! (off + 7));
             small_range = short_of_bytes (data ! (off + 12)) (data ! (off + 13));
             angle_raw = int_of_bytes (data ! (off + 8)) (data ! (off + 9));
             range_raw = br4g_range_raw large_range small_range
         in (range_raw, angle_raw, c_div range_raw 4)))"

subsection \<open>The heading of one line (lines 242 to 252)\<close>

definition radar_heading_call :: "bool \<Rightarrow> 16 word \<Rightarrow> heading_call" where
  "radar_heading_call ignore heading_raw =
     (let radar_heading_valid = HEADING_VALID heading_raw;
          radar_heading_true = heading_true heading_raw
      in if radar_heading_valid \<and> \<not> ignore
         then SetRadarHeading heading_raw radar_heading_true
         else SetRadarHeadingNone)"

subsection \<open>One line, and the frame\<close>

definition ProcessFrame_line ::
  "platform \<Rightarrow> frame_env \<Rightarrow> UINT8 list \<Rightarrow> nat \<Rightarrow> NavicoReceive \<Rightarrow> NavicoReceive" where
  "ProcessFrame_line p e data scanline r0 =
     (let off = sizeof_frame_hdr + scanline * sizeof_radar_line p;
          spoke = uint (data ! (off + 2)) OR push_bit 8 (uint (data ! (off + 3)));
          r1 = m_ri_update (m_statistics_update (spokes_update (\<lambda>n. n + 1))) r0
      in if data ! off \<noteq> 0x18 then
           (m_ri_update (m_statistics_update (missing_spokes_update (\<lambda>n. n + 1))) r1)
             \<lparr>m_next_spoke := (spoke + 1) mod SPOKES\<rparr>
         else
           (let r2 = (if data ! (off + 1) \<noteq> 0x02 \<and> data ! (off + 1) \<noteq> 0x12
                      then m_ri_update (m_statistics_update (broken_spokes_update (\<lambda>n. n + 1))) r1
                      else r1);
                r3 = track_spoke spoke r2;
                heading_raw = short_of_bytes (data ! (off + 10)) (data ! (off + 11));
                (range_raw, angle_raw, range_meters) = decode_range_angle p data off;
                r4 = r3\<lparr>heading_calls :=
                          radar_heading_call (ignore_radar_heading e) heading_raw # heading_calls r3\<rparr>;
                heading_raw' = (word_of_int (SCALE_DEGREES_TO_RAW p (GetHeadingTrue e scanline)) :: 16 word);
                bearing_raw = angle_raw + sint heading_raw';
                a = MOD_SPOKES (c_div angle_raw 2);
                b = MOD_SPOKES (c_div bearing_raw 2)
            in m_ri_update (radar_spokes_update (Cons
                 \<lparr>spoke_angle = a, spoke_bearing = b,
                  spoke_data = take (RETURNS_PER_LINE p) (drop (off + 24) data),
                  spoke_len = RETURNS_PER_LINE p, spoke_range_meters = range_meters,
                  spoke_time_rec = env_time_rec e, spoke_lat = env_lat e, spoke_lon = env_lon e\<rparr>)) r4))"

definition ProcessFrame ::
  "platform \<Rightarrow> frame_env \<Rightarrow> UINT8 list \<Rightarrow> int \<Rightarrow> NavicoReceive \<Rightarrow> NavicoReceive" where
  "ProcessFrame p e data len r0 =
     (let r1 = m_ri_update (\<lambda>ri. ri\<lparr>m_radar_timeout := env_now e + WATCHDOG_TIMEOUT p,
                                     m_data_timeout := env_now e + DATA_TIMEOUT p,
                                     m_state := Update RADAR_TRANSMIT (m_state ri)\<rparr>) r0;
          r2 = m_ri_update (m_statistics_update (packets_update (\<lambda>n. n + 1))) r1
      in if len < int sizeof_frame_hdr then
           m_ri_update (m_statistics_update (broken_packets_update (\<lambda>n. n + 1))) r2
         else
           (let scanlines_in_packet = (nat len - sizeof_frame_hdr) div sizeof_radar_line p;
                r3 = (if scanlines_in_packet \<noteq> 32
                      then m_ri_update (m_statistics_update (broken_packets_update (\<lambda>n. n + 1))) r2
                      else r2);
                r4 = r3\<lparr>g_first_receive := False\<rparr>
            in fold (ProcessFrame_line p e data) [0..<scanlines_in_packet] r4))"

section \<open>The status-report decoder\<close>

text \<open>
  Fields of the packed report structures, read from the datagram at their byte offsets:
  \<^verbatim>\<open>UINT16\<close> and \<^verbatim>\<open>UINT32\<close> are little-endian.
\<close>

definition UINT16_at :: "UINT8 list \<Rightarrow> nat \<Rightarrow> int" where
  "UINT16_at b i = uint (b ! i) + 256 * uint (b ! (i + 1))"

definition UINT32_at :: "UINT8 list \<Rightarrow> nat \<Rightarrow> int" where
  "UINT32_at b i = uint (b ! i) + 256 * uint (b ! (i + 1)) + 65536 * uint (b ! (i + 2))
                   + 16777216 * uint (b ! (i + 3))"

text \<open>
  \<^verbatim>\<open>static void AppendChar16String(wxString &dest, UINT16 *src)\<close>: the loop
  \<^verbatim>\<open>for (; *src; src++)\<close> runs until it reads a zero code unit. The argument of
  \<open>char16_scan\<close> is what the array holds from \<^verbatim>\<open>src\<close> on; a scan that leaves the array
  without having met a zero has no defined result (\<open>None\<close>).
\<close>

fun char16_scan :: "UINT8 list \<Rightarrow> 16 word list option" where
  "char16_scan (b0 # b1 # rest) =
     (let wc = short_of_bytes b0 b1
      in if wc = 0 then Some [] else map_option (Cons wc) (char16_scan rest))"
| "char16_scan _ = None"

definition AppendChar16String :: "16 word list \<Rightarrow> UINT8 list \<Rightarrow> nat \<Rightarrow> 16 word list option" where
  "AppendChar16String dest report src = map_option (append dest) (char16_scan (drop src report))"

text \<open>A text literal as the code units of a \<^verbatim>\<open>wxString\<close>.\<close>

definition wxT :: "string \<Rightarrow> 16 word list" where
  "wxT s = map (\<lambda>c. word_of_nat (of_char c)) s"

subsection \<open>The known reports\<close>

text \<open>\<^verbatim>\<open>case (18 << 8) + 0x01\<close>: \<^verbatim>\<open>struct RadarReport_01C4_18\<close>, radar status in byte 2.\<close>

definition report_01C4_18 :: "platform \<Rightarrow> int \<Rightarrow> UINT8 list \<Rightarrow> NavicoReceive \<Rightarrow> NavicoReceive" where
  "report_01C4_18 p now report r =
     (let radar_status = uint (report ! 2)
      in if radar_status \<noteq> m_radar_status r then
           (let r1 = r\<lparr>m_radar_status := radar_status\<rparr>
            in if radar_status = 0x01 then
                 (m_ri_update (m_state_update (Update RADAR_STANDBY)) r1)\<lparr>m_status := ''Standby''\<rparr>
               else if radar_status = 0x02 then
                 (m_ri_update (m_state_update (Update RADAR_TRANSMIT)) r1)\<lparr>m_status := ''Transmit''\<rparr>
               else if radar_status = 0x05 then
                 (m_ri_update (\<lambda>ri. ri\<lparr>m_state := Update RADAR_WAKING_UP (m_state ri),
                                       m_data_timeout := now + DATA_TIMEOUT p\<rparr>) r1)
                   \<lparr>m_status := ''Waking up''\<rparr>
               else r1\<lparr>m_status := ''Unknown status''\<rparr>)
         else r)"

text \<open>
  \<^verbatim>\<open>case (99 << 8) + 0x02\<close>: \<^verbatim>\<open>struct RadarReport_02C4_99\<close>. The field \<^verbatim>\<open>sea\<close> is a
  \<^verbatim>\<open>UINT32\<close>, so \<^verbatim>\<open>s->sea * 100\<close> is computed modulo \<open>2 ^ 32\<close>.
\<close>

definition report_02C4_99 :: "platform \<Rightarrow> UINT8 list \<Rightarrow> NavicoReceive \<Rightarrow> NavicoReceive" where
  "report_02C4_99 p report r =
     (let range = UINT32_at report 2;
          field8 = UINT32_at report 8;
          gain = uint (report ! 12);
          sea_auto = uint (report ! 13);
          sea = UINT32_at report 17;
          rain = uint (report ! 22);
          interference_rejection = uint (report ! 34);
          target_expansion = uint (report ! 38);
          target_boost = uint (report ! 42)
      in m_ri_update (\<lambda>ri. ri
           \<lparr>m_gain := (if field8 = 1 then Update (AUTO_RANGE p - 1) (m_gain ri)
                       else Update (gain * 100 div 255) (m_gain ri)),
            m_rain := Update (rain * 100 div 255) (m_rain ri),
            m_sea := (if sea_auto > 0 then Update (AUTO_RANGE p - sea_auto) (m_sea ri)
                      else Update ((sea * 100) mod 2 ^ 32 div 255) (m_sea ri)),
            m_target_boost := Update target_boost (m_target_boost ri),
            m_interference_rejection := Update interference_rejection (m_interference_rejection ri),
            m_target_expansion := Update target_expansion (m_target_expansion ri),
            m_range := Update (range div 10) (m_range ri)\<rparr>) r)"

text \<open>
  \<^verbatim>\<open>case (129 << 8) + 0x03\<close>: \<^verbatim>\<open>struct RadarReport_03C4_129\<close>, with \<^verbatim>\<open>firmware_date\<close> at
  offset 58 and \<^verbatim>\<open>firmware_time\<close> at offset 90.
\<close>

definition report_03C4_129 :: "UINT8 list \<Rightarrow> NavicoReceive \<Rightarrow> NavicoReceive option" where
  "report_03C4_129 report r =
     (case AppendChar16String (wxT ''Firmware date: '') report 58 of
        None \<Rightarrow> None
      | Some ts1 \<Rightarrow>
          (case AppendChar16String (ts1 @ wxT '' '') report 90 of
             None \<Rightarrow> None
           | Some ts \<Rightarrow> Some (r\<lparr>radar_build_info := Some ts\<rparr>)))"

text \<open>
  \<^verbatim>\<open>case (66 << 8) + 0x04\<close>: \<^verbatim>\<open>struct RadarReport_04C4_66\<close>, with the \<^verbatim>\<open>UINT16\<close> fields
  \<^verbatim>\<open>bearing_alignment\<close> at offset 6 and \<^verbatim>\<open>antenna_height\<close> at offset 10.
\<close>

definition report_04C4_66 :: "UINT8 list \<Rightarrow> NavicoReceive \<Rightarrow> NavicoReceive" where
  "report_04C4_66 report r =
     (let ba = c_div (UINT16_at report 6) 10;
          ba' = (if ba > 180 then ba - 360 else ba)
      in m_ri_update (\<lambda>ri. ri
           \<lparr>m_bearing_alignment := Update ba' (m_bearing_alignment ri),
            m_antenna_height := Update (c_div (UINT16_at report 10) 1000) (m_antenna_height ri)\<rparr>) r)"

text \<open>\<^verbatim>\<open>case (18 << 8) + 0x08\<close>: \<^verbatim>\<open>struct RadarReport_08C4_18\<close>.\<close>

definition report_08C4_18 :: "platform \<Rightarrow> UINT8 list \<Rightarrow> NavicoReceive \<Rightarrow> NavicoReceive" where
  "report_08C4_18 p report r =
     (let local_interference_rejection = uint (report ! 3);
          scan_speed = uint (report ! 4);
          sls_auto = uint (report ! 5);
          side_lobe_suppression = uint (report ! 9);
          noise_rejection = uint (report ! 12);
          target_sep = uint (report ! 13)
      in m_ri_update (\<lambda>ri. ri
           \<lparr>m_scan_speed := Update scan_speed (m_scan_speed ri),
            m_noise_rejection := Update noise_rejection (m_noise_rejection ri),
            m_target_separation := Update target_sep (m_target_separation ri),
            m_side_lobe_suppression :=
              (if sls_auto = 1 then Update (AUTO_RANGE p - 1) (m_side_lobe_suppression ri)
               else Update (side_lobe_suppression * 100 div 255) (m_side_lobe_suppression ri)),
            m_local_interference_rejection :=
              Update local_interference_rejection (m_local_interference_rejection ri)\<rparr>) r)"

subsection \<open>The dispatch\<close>

text \<open>
  The branch that \<^verbatim>\<open>ProcessReport\<close> takes: \<^verbatim>\<open>if (report[1] == 0xC4)\<close> with the
  \<^verbatim>\<open>switch ((len << 8) + report[0])\<close> inside, \<^verbatim>\<open>else if (report[1] == 0xF5)\<close>, and the
  fall-through.
\<close>

datatype report_path =
  PATH_01C4_18 | PATH_02C4_99 | PATH_03C4_129 | PATH_04C4_66 | PATH_08C4_18
  | PATH_C4_default | PATH_F5 | PATH_unknown_message

definition report_path :: "int \<Rightarrow> UINT8 \<Rightarrow> UINT8 \<Rightarrow> report_path" where
  "report_path len report0 report1 =
     (if report1 = 0xC4 then
        (let key = push_bit 8 len + uint report0
         in if key = push_bit 8 18 + 0x01 then PATH_01C4_18
            else if key = push_bit 8 99 + 0x02 then PATH_02C4_99
            else if key = push_bit 8 129 + 0x03 then PATH_03C4_129
            else if key = push_bit 8 66 + 0x04 then PATH_04C4_66
            else if key = push_bit 8 18 + 0x08 then PATH_08C4_18
            else PATH_C4_default)
      else if report1 = 0xF5 then PATH_F5
      else PATH_unknown_message)"

text \<open>
  The set of dispatch keys that have a \<^verbatim>\<open>case\<close> label in \<^verbatim>\<open>ProcessReport\<close>: the pairs of
  datagram length and first byte.
\<close>

definition known_report_keys :: "(int \<times> UINT8) set" where
  "known_report_keys = {(18, 0x01), (99, 0x02), (129, 0x03), (66, 0x04), (18, 0x08)}"

text \<open>
  \<^verbatim>\<open>bool NavicoReceive::ProcessReport(const UINT8 *report, int len)\<close>: the result is the
  returned flag and the receiver afterwards, or \<open>None\<close> where the firmware text is not
  terminated inside the array.
\<close>

definition ProcessReport ::
  "platform \<Rightarrow> int \<Rightarrow> UINT8 list \<Rightarrow> int \<Rightarrow> NavicoReceive \<Rightarrow> (bool \<times> NavicoReceive) option" where
  "ProcessReport p now report len r0 =
     (let r = m_ri_update (m_radar_timeout_update (\<lambda>_. now + WATCHDOG_TIMEOUT p)) r0
      in case report_path len (report ! 0) (report ! 1) of
           PATH_01C4_18 \<Rightarrow> Some (True, report_01C4_18 p now report r)
         | PATH_02C4_99 \<Rightarrow> Some (True, report_02C4_99 p report r)
         | PATH_03C4_129 \<Rightarrow> map_option (Pair True) (report_03C4_129 report r)
         | PATH_04C4_66 \<Rightarrow> Some (True, report_04C4_66 report r)
         | PATH_08C4_18 \<Rightarrow> Some (True, report_08C4_18 p report r)
         | PATH_C4_default \<Rightarrow> Some (True, r)
         | PATH_F5 \<Rightarrow> Some (True, r)
         | PATH_unknown_message \<Rightarrow> Some (False, r))"

section \<open>The receive loop: the branch taken when the wait times out\<close>

text \<open>
  The local variables of \<^verbatim>\<open>NavicoReceive::Entry\<close> that the loop carries from one iteration
  to the next, with the receiver object. \<^verbatim>\<open>INVALID_SOCKET\<close> and the null \<^verbatim>\<open>radar_addr\<close> are
  \<open>None\<close>; \<open>closed_sockets\<close> records the calls of \<^verbatim>\<open>closesocket\<close> (the latest first).
\<close>

record entry_state =
  no_data_timeout :: int
  no_spoke_timeout :: int
  reportSocket :: "nat option"
  dataSocket :: "nat option"
  radar_addr :: "NetworkAddress option"
  closed_sockets :: "nat list"
  receiver :: NavicoReceive

text \<open>
  Modelled from the spec: the body of \<^verbatim>\<open>RadarInfo::ResetRadarImage\<close> is outside the
  sources at hand. The spec: it triggers a reset of the rendered image buffer without
  altering operating state. The model counts the resets.
\<close>

definition ResetRadarImage :: "RadarInfo \<Rightarrow> RadarInfo" where
  "ResetRadarImage ri = ri\<lparr>image_resets := image_resets ri + 1\<rparr>"

text \<open>Lines 482 to 493: the no-data countdown.\<close>

definition no_data_watchdog :: "entry_state \<Rightarrow> entry_state" where
  "no_data_watchdog s =
     (if no_data_timeout s \<ge> SECONDS_SELECT 2 then
        (let s1 = s\<lparr>no_data_timeout := 0\<rparr>
         in case reportSocket s1 of
              Some fd \<Rightarrow>
                s1\<lparr>closed_sockets := fd # closed_sockets s1,
                   reportSocket := None,
                   receiver := (m_ri_update (m_state_update (Update RADAR_OFF)) (receiver s1))
                                 \<lparr>m_interface_addr := \<lparr>addr = 0, port = 0\<rparr>\<rparr>,
                   radar_addr := None\<rparr>
            | None \<Rightarrow> s1)
      else s\<lparr>no_data_timeout := no_data_timeout s + 1\<rparr>)"

text \<open>Lines 495 to 500: the no-spoke countdown.\<close>

definition no_spoke_watchdog :: "entry_state \<Rightarrow> entry_state" where
  "no_spoke_watchdog s =
     (if no_spoke_timeout s \<ge> SECONDS_SELECT 2 then
        s\<lparr>no_spoke_timeout := 0,
          receiver := m_ri_update ResetRadarImage (receiver s)\<rparr>
      else s\<lparr>no_spoke_timeout := no_spoke_timeout s + 1\<rparr>)"

text \<open>
  The \<^verbatim>\<open>else\<close> branch of \<^verbatim>\<open>if (r > 0)\<close> (lines 480 to 501), taken when \<^verbatim>\<open>select\<close> reports
  no socket ready.
\<close>

definition select_timeout :: "entry_state \<Rightarrow> entry_state" where
  "select_timeout s = no_spoke_watchdog (no_data_watchdog s)"

section \<open>Concrete inputs\<close>

text \<open>
  A platform, a receiver state and an environment at which the theorems below are
  evaluated. The values of the platform's constants are examples: 512 returns per line
  gives lines of 536 bytes, of which 120 stay below 64 kB, as the comment on
  \<^verbatim>\<open>radar_frame_pkt\<close> says; the rounding of the example platform is exact.
\<close>

definition example_platform :: platform where
  "example_platform =
     \<lparr>RETURNS_PER_LINE = 512, WATCHDOG_TIMEOUT = 10, DATA_TIMEOUT = 5, AUTO_RANGE = 100,
      fl_double = (\<lambda>x. x)\<rparr>"

definition new_item :: "'a \<Rightarrow> 'a radar_control_item" where
  "new_item v = \<lparr>value_item = v, button = v, mod_item = False\<rparr>"

definition example_info :: RadarInfo where
  "example_info =
     \<lparr>m_radar_timeout = 0, m_data_timeout = 0, m_state = new_item RADAR_OFF,
      m_statistics = \<lparr>packets = 0, broken_packets = 0, spokes = 0, broken_spokes = 0,
                       missing_spokes = 0\<rparr>,
      m_gain = new_item 0, m_rain = new_item 0, m_sea = new_item 0,
      m_target_boost = new_item 0, m_interference_rejection = new_item 0,
      m_target_expansion = new_item 0, m_range = new_item 0,
      m_bearing_alignment = new_item 0, m_antenna_height = new_item 0,
      m_scan_speed = new_item 0, m_noise_rejection = new_item 0,
      m_target_separation = new_item 0, m_side_lobe_suppression = new_item 0,
      m_local_interference_rejection = new_item 0,
      radar_spokes = [], image_resets = 0\<rparr>"

definition example_receiver :: NavicoReceive where
  "example_receiver =
     \<lparr>m_ri = example_info, m_interface_addr = \<lparr>addr = 0xC0A80002, port = 0\<rparr>,
      m_next_spoke = - 1, m_radar_status = 0, m_status = [], g_first_receive = True,
      heading_calls = [], radar_build_info = None\<rparr>"

definition example_env :: frame_env where
  "example_env =
     \<lparr>env_now = 1000, env_time_rec = 1000000, env_lat = 0, env_lon = 0,
      ignore_radar_heading = False, GetHeadingTrue = (\<lambda>_. 0)\<rparr>"

text \<open>
  A loop state in which the report socket is open and a radar has been detected, and the
  state the loop is in after a read error on the report socket when no interface could be
  opened since: the report socket is invalid, the radar address is still set.
\<close>

definition example_loop :: entry_state where
  "example_loop =
     \<lparr>no_data_timeout = 8, no_spoke_timeout = 8, reportSocket = Some 5, dataSocket = Some 6,
      radar_addr = Some \<lparr>addr = 0xC0A80064, port = 6679\<rparr>, closed_sockets = [],
      receiver = m_ri_update (m_state_update (Update RADAR_STANDBY)) example_receiver\<rparr>"

definition example_loop_no_report_socket :: entry_state where
  "example_loop_no_report_socket = example_loop\<lparr>reportSocket := None, dataSocket := None\<rparr>"

text \<open>
  A line header of the newer layout (24 bytes) with the given bytes in the fields
  \<^verbatim>\<open>largerange\<close> and \<^verbatim>\<open>smallrange\<close>.
\<close>

definition example_br4g_line :: "UINT8 \<Rightarrow> UINT8 \<Rightarrow> UINT8 \<Rightarrow> UINT8 \<Rightarrow> UINT8 list" where
  "example_br4g_line l0 l1 s0 s1 =
     [0x18, 0x02, 0x10, 0x00, 0x00, 0x44, l0, l1, 0x20, 0x00, 0xd6, 0x07, s0, s1, 0x00, 0x00,
      0xff, 0xff, 0xff, 0xff, 0xff, 0xff, 0xff, 0x80]"

text \<open>Reports: an operating-status report and a bearing/antenna report.\<close>

definition example_report_01C4_18 :: "UINT8 \<Rightarrow> UINT8 list" where
  "example_report_01C4_18 radar_status = [0x01, 0xC4, radar_status] @ replicate 15 0"

definition example_report_04C4_66 :: "UINT8 \<Rightarrow> UINT8 \<Rightarrow> UINT8 \<Rightarrow> UINT8 \<Rightarrow> UINT8 list" where
  "example_report_04C4_66 b0 b1 h0 h1 =
     [0x04, 0xC4, 0, 0, 0, 0, b0, b1, 0, 0, h0, h1] @ replicate 54 0"


text \<open>
  A frame of one line of the newer layout whose heading field holds \<^verbatim>\<open>0x8000\<close> (no
  heading), as a 4G radar without heading sensor sends it.
\<close>

definition example_frame_no_heading :: "UINT8 list" where
  "example_frame_no_heading =
     replicate 8 0 @
     [0x18, 0x02, 0x10, 0x00, 0x00, 0x44, 0x80, 0x00, 0x20, 0x00, 0x00, 0x80, 0x90, 0x01, 0x00, 0x00,
      0xff, 0xff, 0xff, 0xff, 0xff, 0xff, 0xff, 0x80] @
     replicate 512 0"

text \<open>
  The receive buffer after a report datagram of one byte, \<^verbatim>\<open>0x01\<close>, has been received
  into it: the bytes from index 1 on are what earlier datagrams left there, and the byte at
  index 1 is the argument.
\<close>

definition example_buffer_1 :: "UINT8 \<Rightarrow> UINT8 list" where
  "example_buffer_1 left_over =
     [0x01, left_over] @ replicate (sizeof_radar_frame_pkt example_platform - 2) 0"

text \<open>
  The receive buffer after an identification report of 129 bytes has been received into
  it, in which neither firmware text is terminated by a zero code unit: the byte at index
  129 is what an earlier datagram left there.
\<close>

definition example_buffer_129 :: "UINT8 \<Rightarrow> UINT8 list" where
  "example_buffer_129 left_over =
     ([0x03, 0xC4, 0x01] @ replicate 55 0) @
     [0x32, 0, 0x30, 0, 0x31, 0, 0x36, 0, 0x2d, 0, 0x30, 0, 0x31, 0, 0x2d, 0,
      0x30, 0, 0x31, 0, 0x20, 0, 0x20, 0, 0x20, 0, 0x20, 0, 0x20, 0, 0x20, 0,
      0x31, 0, 0x32, 0, 0x3a, 0, 0x30, 0, 0x30, 0, 0x3a, 0, 0x30, 0, 0x30, 0,
      0x20, 0, 0x20, 0, 0x20, 0, 0x20, 0, 0x20, 0, 0x20, 0, 0x20, 0, 0x20, 0,
      0x01, 0x01, 0x01, 0x01, 0x01, 0x01, 0x01,
      left_over, 0x00, 0x00] @
     replicate (sizeof_radar_frame_pkt example_platform - 132) 0"

section \<open>Auxiliary facts\<close>

subsection \<open>Sequence numbers\<close>

lemma gap_up:
  fixes prev spoke :: int
  assumes "0 \<le> prev" "prev < 4096" "0 \<le> spoke" "spoke < 4096" "(prev + 1) mod 4096 < spoke"
  shows "spoke - (prev + 1) mod 4096 = (spoke - prev - 1) mod 4096"
proof (cases "prev = 4095")
  case True
  have "(spoke - 4096) mod 4096 = spoke mod 4096" by (simp add: mod_diff_right_eq[symmetric])
  with True assms show ?thesis by simp
next
  case False
  with assms have n: "(prev + 1) mod 4096 = prev + 1" by simp
  with assms have "0 \<le> spoke - prev - 1" "spoke - prev - 1 < 4096" by simp_all
  then have "(spoke - prev - 1) mod 4096 = spoke - prev - 1" by simp
  with n show ?thesis by simp
qed

lemma gap_down:
  fixes prev spoke :: int
  assumes "0 \<le> prev" "prev < 4096" "0 \<le> spoke" "spoke < 4096" "spoke < (prev + 1) mod 4096"
  shows "4096 + spoke - (prev + 1) mod 4096 = (spoke - prev - 1) mod 4096"
proof -
  define d where "d = spoke - prev - 1"
  from assms have n: "(prev + 1) mod 4096 = prev + 1"
    by (cases "prev = 4095") simp_all
  with assms have b: "0 \<le> 4096 + d" "4096 + d < 4096" by (simp_all add: d_def)
  have "d mod 4096 = (4096 + d) mod 4096" by simp
  also have "\<dots> = 4096 + d" using b by (rule mod_pos_pos_trivial)
  finally show ?thesis using n by (simp add: d_def)
qed

subsection \<open>The heading bits\<close>

lemma heading_bits32: "NOT (HEADING_TRUE_FLAG OR HEADING_MASK) = (NOT (2 ^ 14 OR mask 12) :: 32 word)"
  by (simp add: HEADING_TRUE_FLAG_def HEADING_MASK_def SPOKES_def mask_eq_exp_minus_1)

lemma heading_bits16: "(0xB000 :: 16 word) = NOT (2 ^ 14 OR mask 12)"
  by (simp add: mask_eq_exp_minus_1)

lemma bit_heading_bits32:
  "bit (NOT (2 ^ 14 OR mask 12) :: 32 word) n \<longleftrightarrow> n < 32 \<and> n \<noteq> 14 \<and> 12 \<le> n"
  unfolding bit_not_iff bit_or_iff bit_exp_iff bit_mask_iff possible_bit_word
  by auto

lemma bit_heading_bits16:
  "bit (NOT (2 ^ 14 OR mask 12) :: 16 word) n \<longleftrightarrow> n < 16 \<and> n \<noteq> 14 \<and> 12 \<le> n"
  unfolding bit_not_iff bit_or_iff bit_exp_iff bit_mask_iff possible_bit_word
  by auto

lemma zero_iff_no_bit: "(w :: 'a::len word) = 0 \<longleftrightarrow> (\<forall>n. \<not> bit w n)"
  by (auto simp add: bit_eq_iff dest: bit_imp_le_length)

lemma HEADING_VALID_bits: "HEADING_VALID x \<longleftrightarrow> x AND 0xB000 = 0"
proof -
  have S: "bit (scast x :: 32 word) n \<longleftrightarrow> n < 32 \<and> (bit x n \<or> 16 \<le> n \<and> bit x 15)" for n
    by (simp add: bit_word_scast_iff)
  have L: "HEADING_VALID x \<longleftrightarrow> (\<forall>n. \<not> (n < 32 \<and> (bit x n \<or> 16 \<le> n \<and> bit x 15) \<and> n \<noteq> 14 \<and> 12 \<le> n))"
    unfolding HEADING_VALID_def heading_bits32 zero_iff_no_bit bit_and_iff bit_heading_bits32 S
    by blast
  have R: "x AND 0xB000 = 0 \<longleftrightarrow> (\<forall>n. \<not> (bit x n \<and> n < 16 \<and> n \<noteq> 14 \<and> 12 \<le> n))"
    unfolding heading_bits16 zero_iff_no_bit bit_and_iff bit_heading_bits16
    by blast
  have B: "bit x n \<Longrightarrow> n < 16" for n
    using bit_imp_le_length[of x n] by simp
  show ?thesis
    unfolding L R
  proof
    assume a: "\<forall>n. \<not> (n < 32 \<and> (bit x n \<or> 16 \<le> n \<and> bit x 15) \<and> n \<noteq> 14 \<and> 12 \<le> n)"
    show "\<forall>n. \<not> (bit x n \<and> n < 16 \<and> n \<noteq> 14 \<and> 12 \<le> n)"
    proof (intro allI notI)
      fix n assume "bit x n \<and> n < 16 \<and> n \<noteq> 14 \<and> 12 \<le> n"
      then have "n < 32 \<and> (bit x n \<or> 16 \<le> n \<and> bit x 15) \<and> n \<noteq> 14 \<and> 12 \<le> n" by simp
      with a show False by blast
    qed
  next
    assume a: "\<forall>n. \<not> (bit x n \<and> n < 16 \<and> n \<noteq> 14 \<and> 12 \<le> n)"
    show "\<forall>n. \<not> (n < 32 \<and> (bit x n \<or> 16 \<le> n \<and> bit x 15) \<and> n \<noteq> 14 \<and> 12 \<le> n)"
    proof (intro allI notI)
      fix n assume h: "n < 32 \<and> (bit x n \<or> 16 \<le> n \<and> bit x 15) \<and> n \<noteq> 14 \<and> 12 \<le> n"
      show False
      proof (cases "bit x n")
        case True
        with h B[of n] a show False by blast
      next
        case False
        with h have "bit x 15" by blast
        with a[rule_format, of 15] show False by simp
      qed
    qed
  qed
qed

subsection \<open>The dispatch key\<close>

lemma key_eq:
  fixes len :: int and t :: UINT8
  shows "push_bit 8 len + uint t = push_bit 8 k + uint v \<longleftrightarrow> len = k \<and> t = v"
proof
  assume e: "push_bit 8 len + uint t = push_bit 8 k + uint v"
  have b: "0 \<le> uint t" "uint t < 256" "0 \<le> uint v" "uint v < 256"
    using uint_lt2p[of t] uint_lt2p[of v] by simp_all
  have d: "(x * 256 + u) div 256 = x" "(x * 256 + u) mod 256 = u" if "0 \<le> u" "u < 256" for x u :: int
    using that by simp_all
  from e have e': "len * 256 + uint t = k * 256 + uint v" by (simp add: push_bit_eq_mult)
  from arg_cong[OF e', of "\<lambda>z. z div 256"] have "len = k"
    unfolding d(1)[OF b(1,2)] d(1)[OF b(3,4)] .
  moreover from arg_cong[OF e', of "\<lambda>z. z mod 256"] have "uint t = uint v"
    unfolding d(2)[OF b(1,2)] d(2)[OF b(3,4)] .
  ultimately show "len = k \<and> t = v" by (simp add: word_uint_eq_iff)
next
  assume "len = k \<and> t = v"
  then show "push_bit 8 len + uint t = push_bit 8 k + uint v" by simp
qed

lemma report_path_C4:
  "report_path len t 0xC4 =
     (if len = 18 \<and> t = 0x01 then PATH_01C4_18
      else if len = 99 \<and> t = 0x02 then PATH_02C4_99
      else if len = 129 \<and> t = 0x03 then PATH_03C4_129
      else if len = 66 \<and> t = 0x04 then PATH_04C4_66
      else if len = 18 \<and> t = 0x08 then PATH_08C4_18
      else PATH_C4_default)"
proof -
  have k: "push_bit 8 len + uint t = push_bit 8 18 + 0x01 \<longleftrightarrow> len = 18 \<and> t = 0x01"
    "push_bit 8 len + uint t = push_bit 8 99 + 0x02 \<longleftrightarrow> len = 99 \<and> t = 0x02"
    "push_bit 8 len + uint t = push_bit 8 129 + 0x03 \<longleftrightarrow> len = 129 \<and> t = 0x03"
    "push_bit 8 len + uint t = push_bit 8 66 + 0x04 \<longleftrightarrow> len = 66 \<and> t = 0x04"
    "push_bit 8 len + uint t = push_bit 8 18 + 0x08 \<longleftrightarrow> len = 18 \<and> t = 0x08"
    using key_eq[of len t 18 1] key_eq[of len t 99 2] key_eq[of len t 129 3]
      key_eq[of len t 66 4] key_eq[of len t 18 8]
    by simp_all
  show ?thesis
    unfolding report_path_def Let_def k by simp
qed

lemma c_div_nonneg: "0 \<le> a \<Longrightarrow> 0 < b \<Longrightarrow> c_div a b = a div b"
  by (cases "a = 0") (simp_all add: c_div_def)

lemma UINT16_at_range: "0 \<le> UINT16_at b i" "UINT16_at b i < 65536"
  using uint_lt2p[of "b ! i"] uint_lt2p[of "b ! (i + 1)"]
  by (simp_all add: UINT16_at_def)

subsection \<open>The lines of a frame\<close>

lemma ProcessFrame_line_spoke:
  assumes "data ! (sizeof_frame_hdr + n * sizeof_radar_line p) = 0x18"
  shows "spoke_range_meters (hd (radar_spokes (m_ri (ProcessFrame_line p e data n r)))) =
           snd (snd (decode_range_angle p data (sizeof_frame_hdr + n * sizeof_radar_line p)))"
    and "heading_calls (ProcessFrame_line p e data n r) =
           radar_heading_call (ignore_radar_heading e)
             (short_of_bytes (data ! (sizeof_frame_hdr + n * sizeof_radar_line p + 10))
                             (data ! (sizeof_frame_hdr + n * sizeof_radar_line p + 11)))
           # heading_calls r"
  using assms
  by (simp_all add: ProcessFrame_line_def Let_def track_spoke_def add_missing_spokes_def split: prod.splits)

lemma ProcessFrame_line_keeps:
  "m_state (m_ri (ProcessFrame_line p e data n r)) = m_state (m_ri r)"
  "m_radar_timeout (m_ri (ProcessFrame_line p e data n r)) = m_radar_timeout (m_ri r)"
  "m_data_timeout (m_ri (ProcessFrame_line p e data n r)) = m_data_timeout (m_ri r)"
  "packets (m_statistics (m_ri (ProcessFrame_line p e data n r))) = packets (m_statistics (m_ri r))"
  "broken_packets (m_statistics (m_ri (ProcessFrame_line p e data n r))) = broken_packets (m_statistics (m_ri r))"
  by (simp_all add: ProcessFrame_line_def track_spoke_def add_missing_spokes_def Let_def split: prod.splits)

lemma fold_line_keeps:
  "m_state (m_ri (fold (ProcessFrame_line p e data) ns r)) = m_state (m_ri r) \<and>
   m_radar_timeout (m_ri (fold (ProcessFrame_line p e data) ns r)) = m_radar_timeout (m_ri r) \<and>
   m_data_timeout (m_ri (fold (ProcessFrame_line p e data) ns r)) = m_data_timeout (m_ri r) \<and>
   packets (m_statistics (m_ri (fold (ProcessFrame_line p e data) ns r))) = packets (m_statistics (m_ri r)) \<and>
   broken_packets (m_statistics (m_ri (fold (ProcessFrame_line p e data) ns r))) = broken_packets (m_statistics (m_ri r))"
  by (induction ns arbitrary: r) (simp_all add: ProcessFrame_line_keeps)

subsection \<open>The bytes that the decoders depend on\<close>

text \<open>
  The frame decoder depends on the first \<^verbatim>\<open>len\<close> bytes of the buffer only. So does the report
  decoder when \<^verbatim>\<open>len\<close> is at least 2 and the report is not the identification report.
\<close>

lemma nth_of_take_eq:
  assumes "take L xs = take L ys" "i < L"
  shows "xs ! i = ys ! i"
proof -
  have "xs ! i = take L xs ! i" using assms(2) by simp
  also have "\<dots> = take L ys ! i" using assms(1) by simp
  also have "\<dots> = ys ! i" using assms(2) by simp
  finally show ?thesis .
qed

lemma slice_of_take_eq:
  assumes "take L xs = take L ys" "m + n \<le> L"
  shows "take n (drop m xs) = take n (drop m ys)"
proof -
  have "take (m + n) xs = take (m + n) (take L xs)" using assms(2) by (simp add: min_def)
  also have "\<dots> = take (m + n) (take L ys)" using assms(1) by simp
  also have "\<dots> = take (m + n) ys" using assms(2) by (simp add: min_def)
  finally have e: "take (m + n) xs = take (m + n) ys" .
  have "take n (drop m xs) = drop m (take (m + n) xs)" by (simp add: drop_take)
  also have "\<dots> = drop m (take (m + n) ys)" using e by simp
  also have "\<dots> = take n (drop m ys)" by (simp add: drop_take)
  finally show ?thesis .
qed

lemma ProcessFrame_line_within:
  assumes t: "take L data = take L data'"
    and w: "sizeof_frame_hdr + (n + 1) * sizeof_radar_line p \<le> L"
  shows "ProcessFrame_line p e data n r = ProcessFrame_line p e data' n r"
proof -
  define off where "off = sizeof_frame_hdr + n * sizeof_radar_line p"
  have o: "off + 24 + RETURNS_PER_LINE p \<le> L"
    using w by (simp add: off_def sizeof_radar_line_def algebra_simps)
  have b: "data ! (off + k) = data' ! (off + k)" if "k < 24" for k
    using nth_of_take_eq[OF t, of "off + k"] o that by simp
  have b0: "data ! off = data' ! off" "data ! Suc off = data' ! Suc off"
    "data ! Suc (Suc off) = data' ! Suc (Suc off)"
    using b[of 0] b[of 1] b[of 2] by simp_all
  have s: "take (RETURNS_PER_LINE p) (drop (off + 24) data) =
           take (RETURNS_PER_LINE p) (drop (off + 24) data')"
    using slice_of_take_eq[OF t, of "off + 24" "RETURNS_PER_LINE p"] o by simp
  have d: "decode_range_angle p data off = decode_range_angle p data' off"
    by (simp add: decode_range_angle_def b)
  show ?thesis
    unfolding ProcessFrame_line_def off_def[symmetric] Let_def
    by (simp add: b b0 s d)
qed

lemma fold_lines_within:
  assumes t: "take L data = take L data'"
    and w: "\<And>n. n \<in> set ns \<Longrightarrow> sizeof_frame_hdr + (n + 1) * sizeof_radar_line p \<le> L"
  shows "fold (ProcessFrame_line p e data) ns r = fold (ProcessFrame_line p e data') ns r"
  using w
proof (induction ns arbitrary: r)
  case Nil
  then show ?case by simp
next
  case (Cons n ns)
  have "ProcessFrame_line p e data n r = ProcessFrame_line p e data' n r"
    using ProcessFrame_line_within[OF t] Cons.prems by simp
  then show ?case using Cons by simp
qed

lemma ProcessFrame_within_len:
  assumes "take (nat len) data = take (nat len) data'"
  shows "ProcessFrame p e data len r = ProcessFrame p e data' len r"
proof (cases "len < int sizeof_frame_hdr")
  case True
  then show ?thesis by (simp add: ProcessFrame_def)
next
  case False
  define k where "k = (nat len - sizeof_frame_hdr) div sizeof_radar_line p"
  have h: "sizeof_frame_hdr \<le> nat len" using False by simp
  have W: "sizeof_frame_hdr + (n + 1) * sizeof_radar_line p \<le> nat len" if "n \<in> set [0..<k]" for n
  proof -
    from that have "n + 1 \<le> k" by simp
    then have "(n + 1) * sizeof_radar_line p \<le> k * sizeof_radar_line p" by (rule mult_le_mono1)
    also have "\<dots> \<le> nat len - sizeof_frame_hdr" by (simp add: k_def)
    finally show ?thesis using h by simp
  qed
  have F: "fold (ProcessFrame_line p e data) [0..<k] r' = fold (ProcessFrame_line p e data') [0..<k] r'"
    for r'
    by (rule fold_lines_within[OF assms]) (rule W)
  show ?thesis
    unfolding ProcessFrame_def Let_def k_def[symmetric] F by (rule refl)
qed

lemma report_path_length:
  "report_path len t f = PATH_01C4_18 \<Longrightarrow> len = 18"
  "report_path len t f = PATH_02C4_99 \<Longrightarrow> len = 99"
  "report_path len t f = PATH_04C4_66 \<Longrightarrow> len = 66"
  "report_path len t f = PATH_08C4_18 \<Longrightarrow> len = 18"
proof -
  have o: "report_path len t f \<in> {PATH_F5, PATH_unknown_message}" if "f \<noteq> 0xC4"
    using that by (simp add: report_path_def)
  show "report_path len t f = PATH_01C4_18 \<Longrightarrow> len = 18"
    using o report_path_C4[of len t] by (cases "f = 0xC4") (auto split: if_splits)
  show "report_path len t f = PATH_02C4_99 \<Longrightarrow> len = 99"
    using o report_path_C4[of len t] by (cases "f = 0xC4") (auto split: if_splits)
  show "report_path len t f = PATH_04C4_66 \<Longrightarrow> len = 66"
    using o report_path_C4[of len t] by (cases "f = 0xC4") (auto split: if_splits)
  show "report_path len t f = PATH_08C4_18 \<Longrightarrow> len = 18"
    using o report_path_C4[of len t] by (cases "f = 0xC4") (auto split: if_splits)
qed

lemma ProcessReport_within_len:
  assumes t: "take (nat len) report = take (nat len) report'"
    and l: "2 \<le> len"
    and n: "report_path len (report ! 0) (report ! 1) \<noteq> PATH_03C4_129"
  shows "ProcessReport p now report len r = ProcessReport p now report' len r"
proof -
  have eq: "report ! i = report' ! i" if "i < nat len" for i
    using nth_of_take_eq[OF t that] .
  have h: "report ! 0 = report' ! 0" "report ! 1 = report' ! 1"
    using eq[of 0] eq[of 1] l by simp_all
  define path where "path = report_path len (report ! 0) (report ! 1)"
  have path': "report_path len (report' ! 0) (report' ! 1) = path"
    unfolding path_def h ..
  consider (a) "path = PATH_01C4_18" | (b) "path = PATH_02C4_99" | (c) "path = PATH_04C4_66"
    | (d) "path = PATH_08C4_18" | (e) "path = PATH_C4_default \<or> path = PATH_F5 \<or> path = PATH_unknown_message"
    using n unfolding path_def[symmetric] by (cases path) simp_all
  then show ?thesis
  proof cases
    case a
    then have "len = 18" unfolding path_def by (rule report_path_length)
    then have "report ! 2 = report' ! 2" using eq[of 2] by simp
    then show ?thesis
      unfolding ProcessReport_def Let_def path_def[symmetric] path' a
      by (simp add: report_01C4_18_def)
  next
    case b
    then have "len = 99" unfolding path_def by (rule report_path_length)
    then have "report ! i = report' ! i" if "i < 99" for i using eq[of i] that by simp
    then have "report_02C4_99 p report x = report_02C4_99 p report' x" for x
      by (simp add: report_02C4_99_def UINT32_at_def)
    then show ?thesis
      unfolding ProcessReport_def Let_def path_def[symmetric] path' b by simp
  next
    case c
    then have "len = 66" unfolding path_def by (rule report_path_length)
    then have "report ! i = report' ! i" if "i < 66" for i using eq[of i] that by simp
    then have "report_04C4_66 report x = report_04C4_66 report' x" for x
      by (simp add: report_04C4_66_def UINT16_at_def)
    then show ?thesis
      unfolding ProcessReport_def Let_def path_def[symmetric] path' c by simp
  next
    case d
    then have "len = 18" unfolding path_def by (rule report_path_length)
    then have "report ! i = report' ! i" if "i < 18" for i using eq[of i] that by simp
    then have "report_08C4_18 p report x = report_08C4_18 p report' x" for x
      by (simp add: report_08C4_18_def)
    then show ?thesis
      unfolding ProcessReport_def Let_def path_def[symmetric] path' d by simp
  next
    case e
    then show ?thesis
      unfolding ProcessReport_def Let_def path_def[symmetric] path' by auto
  qed
qed

subsection \<open>Rounding in the range of the older layout\<close>

lemma sqrt2_bounds: "14142132 / 10000000 \<le> sqrt 2" "sqrt 2 \<le> 1414215 / 1000000"
proof -
  show "14142132 / 10000000 \<le> sqrt 2"
    by (rule real_le_rsqrt) (simp add: power2_eq_square)
  show "sqrt 2 \<le> 1414215 / 1000000"
    by (rule real_le_lsqrt) (simp_all add: power2_eq_square)
qed

lemma rounding_factors:
  fixes u :: real
  assumes "u = 1 / 2 ^ 53"
  shows "1 - 1 / (2 * 10 ^ 15) \<le> (1 - u) * (1 - u) * (1 - u) / (1 + u)"
    and "(1 + u) * (1 + u) * (1 + u) / (1 - u) \<le> 1 + 1 / (2 * 10 ^ 15)"
  unfolding assms by (simp_all add: field_simps)

lemma fl_interval:
  fixes fl :: "real \<Rightarrow> real" and u :: real
  assumes "\<bar>fl x - x\<bar> \<le> x * u"
  shows "x * (1 - u) \<le> fl x" "fl x \<le> x * (1 + u)"
  using assms by (simp_all add: abs_le_iff algebra_simps)

lemma fl_chain:
  fixes fl :: "real \<Rightarrow> real" and raw s :: real
  assumes H: "\<And>x. 1 \<le> x \<Longrightarrow> x \<le> 2 ^ 28 \<Longrightarrow> \<bar>fl x - x\<bar> \<le> x / 2 ^ 53"
    and raw: "1 \<le> raw" "raw \<le> 2 ^ 24"
    and s: "141 / 100 \<le> s" "s \<le> 142 / 100"
  shows "raw * 10 / s * (1 - 1 / (2 * 10 ^ 15)) \<le> fl (fl (fl raw * 10) / fl s)"
    and "fl (fl (fl raw * 10) / fl s) \<le> raw * 10 / s * (1 + 1 / (2 * 10 ^ 15))"
proof -
  define u :: real where "u = 1 / 2 ^ 53"
  have u: "0 \<le> u" "u \<le> 1 / 1000" by (simp_all add: u_def)
  have I: "x * (1 - u) \<le> fl x \<and> fl x \<le> x * (1 + u)" if "1 \<le> x" "x \<le> 2 ^ 28" for x
  proof -
    have "\<bar>fl x - x\<bar> \<le> x * u" using H[OF that] by (simp add: u_def)
    then show ?thesis using fl_interval[of fl x u] by simp
  qed
  define a where "a = fl raw"
  define b where "b = fl (a * 10)"
  define c where "c = fl s"
  define q where "q = fl (b / c)"
  have a: "raw * (1 - u) \<le> a" "a \<le> raw * (1 + u)"
    using I[of raw] raw by (simp_all add: a_def)
  have a_lo: "999 / 1000 \<le> a"
  proof -
    have "999 / 1000 \<le> 1 * (1 - u)" using u by simp
    also have "\<dots> \<le> raw * (1 - u)" using raw u by (intro mult_right_mono) simp_all
    also have "\<dots> \<le> a" by (rule a)
    finally show ?thesis .
  qed
  have a_hi: "a \<le> 2 ^ 24 * (1001 / 1000)"
  proof -
    have "a \<le> raw * (1 + u)" by (rule a)
    also have "\<dots> \<le> 2 ^ 24 * (1001 / 1000)" using raw u by (intro mult_mono) simp_all
    finally show ?thesis .
  qed
  have a10: "1 \<le> a * 10" "a * 10 \<le> 2 ^ 28" using a_lo a_hi by simp_all
  have b: "a * 10 * (1 - u) \<le> b" "b \<le> a * 10 * (1 + u)"
    using I[OF a10] by (simp_all add: b_def)
  have b_lo: "raw * (1 - u) * 10 * (1 - u) \<le> b"
  proof -
    have "raw * (1 - u) * 10 * (1 - u) \<le> a * 10 * (1 - u)"
      using a u by (intro mult_right_mono) simp_all
    also have "\<dots> \<le> b" by (rule b)
    finally show ?thesis .
  qed
  have b_hi: "b \<le> raw * (1 + u) * 10 * (1 + u)"
  proof -
    have "b \<le> a * 10 * (1 + u)" by (rule b)
    also have "\<dots> \<le> raw * (1 + u) * 10 * (1 + u)"
      using a u by (intro mult_right_mono) simp_all
    finally show ?thesis .
  qed
  have b_crude: "9 \<le> b" "b \<le> 2 ^ 28"
  proof -
    have "(9 :: real) \<le> 999 / 1000 * 10 * (999 / 1000)" by simp
    also have "\<dots> \<le> a * 10 * (1 - u)" using a_lo u by (intro mult_mono) simp_all
    also have "\<dots> \<le> b" by (rule b)
    finally show "9 \<le> b" .
    have "b \<le> a * 10 * (1 + u)" by (rule b)
    also have "\<dots> \<le> 2 ^ 24 * (1001 / 1000) * 10 * (1001 / 1000)"
      using a_hi a_lo u by (intro mult_mono) simp_all
    also have "\<dots> \<le> 2 ^ 28" by simp
    finally show "b \<le> 2 ^ 28" .
  qed
  have s28: "1 \<le> s" "s \<le> 2 ^ 28" using s by simp_all
  have c: "s * (1 - u) \<le> c" "c \<le> s * (1 + u)"
    using I[OF s28] by (simp_all add: c_def)
  have c_crude: "1 \<le> c" "c \<le> 2"
  proof -
    have "(1 :: real) \<le> 141 / 100 * (999 / 1000)" by simp
    also have "\<dots> \<le> s * (1 - u)" using s u by (intro mult_mono) simp_all
    also have "\<dots> \<le> c" by (rule c)
    finally show "1 \<le> c" .
    have "c \<le> s * (1 + u)" by (rule c)
    also have "\<dots> \<le> 142 / 100 * (1001 / 1000)" using s u by (intro mult_mono) simp_all
    also have "\<dots> \<le> 2" by simp
    finally show "c \<le> 2" .
  qed
  have bc: "1 \<le> b / c" "b / c \<le> 2 ^ 28"
  proof -
    from b_crude c_crude show "1 \<le> b / c" by (simp add: pos_le_divide_eq)
    have "b / c \<le> b / 1" using b_crude c_crude by (intro divide_left_mono) simp_all
    with b_crude show "b / c \<le> 2 ^ 28" by simp
  qed
  have q: "b / c * (1 - u) \<le> q" "q \<le> b / c * (1 + u)"
    using I[OF bc] by (simp_all add: q_def)
  have spos: "0 < s * (1 - u)" using s u by simp
  have lo: "raw * (1 - u) * 10 * (1 - u) / (s * (1 + u)) \<le> b / c"
    using b_lo c c_crude b_crude by (intro frac_le) simp_all
  have hi: "b / c \<le> raw * (1 + u) * 10 * (1 + u) / (s * (1 - u))"
  proof (rule frac_le)
    show "0 \<le> raw * (1 + u) * 10 * (1 + u)" using raw u by simp
    show "b \<le> raw * (1 + u) * 10 * (1 + u)" by (rule b_hi)
    show "0 < s * (1 - u)" by (rule spos)
    show "s * (1 - u) \<le> c" by (rule c)
  qed
  have qlo: "raw * (1 - u) * 10 * (1 - u) / (s * (1 + u)) * (1 - u) \<le> q"
  proof -
    have "raw * (1 - u) * 10 * (1 - u) / (s * (1 + u)) * (1 - u) \<le> b / c * (1 - u)"
      using lo u by (intro mult_right_mono) simp_all
    also have "\<dots> \<le> q" by (rule q)
    finally show ?thesis .
  qed
  have qhi: "q \<le> raw * (1 + u) * 10 * (1 + u) / (s * (1 - u)) * (1 + u)"
  proof -
    have "q \<le> b / c * (1 + u)" by (rule q)
    also have "\<dots> \<le> raw * (1 + u) * 10 * (1 + u) / (s * (1 - u)) * (1 + u)"
      using hi u by (intro mult_right_mono) simp_all
    finally show ?thesis .
  qed
  have E: "0 \<le> raw * 10 / s" using raw s by simp
  have el: "raw * (1 - u) * 10 * (1 - u) / (s * (1 + u)) * (1 - u) =
            raw * 10 / s * ((1 - u) * (1 - u) * (1 - u) / (1 + u))"
    by simp
  have eh: "raw * (1 + u) * 10 * (1 + u) / (s * (1 - u)) * (1 + u) =
            raw * 10 / s * ((1 + u) * (1 + u) * (1 + u) / (1 - u))"
    by simp
  have "raw * 10 / s * (1 - 1 / (2 * 10 ^ 15)) \<le> raw * 10 / s * ((1 - u) * (1 - u) * (1 - u) / (1 + u))"
    using E rounding_factors(1)[OF u_def] by (rule mult_left_mono[rotated])
  with qlo show "raw * 10 / s * (1 - 1 / (2 * 10 ^ 15)) \<le> fl (fl (fl raw * 10) / fl s)"
    unfolding el q_def b_def a_def c_def by simp
  have "raw * 10 / s * ((1 + u) * (1 + u) * (1 + u) / (1 - u)) \<le> raw * 10 / s * (1 + 1 / (2 * 10 ^ 15))"
    using E rounding_factors(2)[OF u_def] by (rule mult_left_mono[rotated])
  with qhi show "fl (fl (fl raw * 10) / fl s) \<le> raw * 10 / s * (1 + 1 / (2 * 10 ^ 15))"
    unfolding eh q_def b_def a_def c_def by simp
qed



lemma br24_range_meters_bounds:
  assumes dr: "double_rounding (fl_double p)" and r: "0 \<le> range_raw" "range_raw < 2 ^ 24"
  shows "real_of_int (br24_range_meters p range_raw)
           \<le> real_of_int range_raw * 10 / sqrt 2 * (1 + 1 / (2 * 10 ^ 15))"
    and "real_of_int range_raw * 10 / sqrt 2 * (1 - 1 / (2 * 10 ^ 15)) - 1
           < real_of_int (br24_range_meters p range_raw)"
proof -
  define fl where "fl = fl_double p"
  define q where "q = fl (fl (fl (real_of_int range_raw) * 10) / fl (sqrt 2))"
  define E where "E = real_of_int range_raw * 10 / sqrt 2"
  have m: "br24_range_meters p range_raw = c_int_of_double q"
    by (simp add: br24_range_meters_def q_def fl_def)
  have H: "\<bar>fl x - x\<bar> \<le> x / 2 ^ 53" if "1 \<le> x" "x \<le> 2 ^ 28" for x
    using dr that by (simp add: double_rounding_def fl_def)
  have z: "fl 0 = 0" using dr by (simp add: double_rounding_def fl_def)
  have s: "141 / 100 \<le> sqrt 2" "sqrt 2 \<le> 142 / 100"
    using sqrt2_bounds by simp_all
  have E0: "0 \<le> E" using r by (simp add: E_def)
  have qb: "E * (1 - 1 / (2 * 10 ^ 15)) \<le> q \<and> q \<le> E * (1 + 1 / (2 * 10 ^ 15))"
  proof (cases "range_raw = 0")
    case True
    then show ?thesis by (simp add: q_def E_def z)
  next
    case False
    with r have "1 \<le> range_raw" by simp
    then have r1: "1 \<le> real_of_int range_raw" by simp
    from r have "real_of_int range_raw \<le> real_of_int (2 ^ 24)" by (intro of_int_le_iff[THEN iffD2]) simp
    then have r2: "real_of_int range_raw \<le> 2 ^ 24" by simp
    show ?thesis
      unfolding q_def E_def using fl_chain[of fl "real_of_int range_raw" "sqrt 2", OF H r1 r2 s]
      by simp
  qed
  have "0 \<le> E * (1 - 1 / (2 * 10 ^ 15))" using E0 by simp
  with qb have q0: "0 \<le> q" by linarith
  then have mq: "br24_range_meters p range_raw = \<lfloor>q\<rfloor>" by (simp add: m c_int_of_double_def)
  have "real_of_int \<lfloor>q\<rfloor> \<le> q" by simp
  with qb show "real_of_int (br24_range_meters p range_raw)
           \<le> real_of_int range_raw * 10 / sqrt 2 * (1 + 1 / (2 * 10 ^ 15))"
    unfolding mq E_def by linarith
  have "q - 1 < real_of_int \<lfloor>q\<rfloor>" by linarith
  with qb show "real_of_int range_raw * 10 / sqrt 2 * (1 - 1 / (2 * 10 ^ 15)) - 1
           < real_of_int (br24_range_meters p range_raw)"
    unfolding mq E_def by linarith
qed

lemma br24_range_meters_1000:
  assumes dr: "double_rounding (fl_double p)"
  shows "br24_range_meters p 1000 = 7071"
proof -
  define E :: real where "E = 1000 * 10 / sqrt 2"
  have b: "real_of_int (br24_range_meters p 1000) \<le> E * (1 + 1 / (2 * 10 ^ 15))"
    "E * (1 - 1 / (2 * 10 ^ 15)) - 1 < real_of_int (br24_range_meters p 1000)"
    unfolding E_def using br24_range_meters_bounds[OF dr, of 1000] by simp_all
  have E: "707106 / 100 \<le> E" "E \<le> 707107 / 100"
  proof -
    have "707106 / 100 * sqrt 2 \<le> 707106 / 100 * (1414215 / 1000000)"
      using sqrt2_bounds by (intro mult_left_mono) simp_all
    also have "\<dots> \<le> 10000" by simp
    finally show "707106 / 100 \<le> E" by (simp add: E_def pos_le_divide_eq)
    have "(10000 :: real) \<le> 707107 / 100 * (14142132 / 10000000)" by simp
    also have "\<dots> \<le> 707107 / 100 * sqrt 2"
      using sqrt2_bounds by (intro mult_left_mono) simp_all
    finally show "E \<le> 707107 / 100" by (simp add: E_def pos_divide_le_eq)
  qed
  have lo: "7071 - 1 < E * (1 - 1 / (2 * 10 ^ 15)) - 1"
  proof -
    have "(7071 :: real) < 707106 / 100 * (1 - 1 / (2 * 10 ^ 15))" by simp
    also have "\<dots> \<le> E * (1 - 1 / (2 * 10 ^ 15))" using E by (intro mult_right_mono) simp_all
    finally show ?thesis by simp
  qed
  have hi: "E * (1 + 1 / (2 * 10 ^ 15)) < 7072"
  proof -
    have "E * (1 + 1 / (2 * 10 ^ 15)) \<le> 707107 / 100 * (1 + 1 / (2 * 10 ^ 15))"
      using E by (intro mult_right_mono) simp_all
    also have "\<dots> < 7072" by simp
    finally show ?thesis .
  qed
  from b lo hi have "real_of_int (br24_range_meters p 1000) < 7072"
    "7070 < real_of_int (br24_range_meters p 1000)" by linarith+
  then have "br24_range_meters p 1000 < 7072" "7070 < br24_range_meters p 1000"
    by linarith+
  then show ?thesis by simp
qed










subsection \<open>Fields of the example lines\<close>

lemma br4g_line_fields:
  "short_of_bytes 0x80 0x00 = 0x80" "short_of_bytes 0x90 0x01 = 400"
  "short_of_bytes 0xff 0xff = - 1" "short_of_bytes 0x0a 0x00 = 10" "short_of_bytes 0x00 0x00 = 0"
  by (simp_all add: short_of_bytes_def int_of_bytes_def)

subsection \<open>The poll threshold\<close>

lemma SECONDS_SELECT_2: "SECONDS_SELECT 2 = 8"
  by (simp add: SECONDS_SELECT_def c_div_def MILLISECONDS_PER_SECOND_def MILLIS_PER_SELECT_def)

section \<open>The claims\<close>

text \<open>
  Claim C1. For every previously observed sequence number and every observed spoke number,
  both in the range 0 to 4095, the sequence tracker makes the counter \<^verbatim>\<open>missing_spokes\<close> grow
  by \<open>(observed - previous - 1) mod 4096\<close> when the observed number is not the expected
  one, and leaves it as it is when the number is the expected one (also across the wrap
  from 4095 to 0); on the first spoke ever seen, when there is no expectation yet (a
  negative \<^verbatim>\<open>m_next_spoke\<close>), the counter does not change; and the expected number becomes
  \<open>(observed + 1) mod 4096\<close>. Nothing else of the receiver changes.
\<close>

theorem track_spoke_missing_count:
  assumes "0 \<le> prev" "prev < 4096" "0 \<le> spoke" "spoke < 4096"
  shows "missing_spokes (m_statistics (m_ri
           (track_spoke spoke (r\<lparr>m_next_spoke := (prev + 1) mod 4096\<rparr>)))) =
           missing_spokes (m_statistics (m_ri r)) +
             (if spoke = (prev + 1) mod 4096 then 0 else (spoke - prev - 1) mod 4096)
         \<and> m_next_spoke (track_spoke spoke (r\<lparr>m_next_spoke := (prev + 1) mod 4096\<rparr>)) =
             (spoke + 1) mod 4096
         \<and> track_spoke spoke (r\<lparr>m_next_spoke := (prev + 1) mod 4096\<rparr>) =
             r\<lparr>m_next_spoke := (spoke + 1) mod 4096,
               m_ri := (m_ri r)\<lparr>m_statistics := (m_statistics (m_ri r))
                 \<lparr>missing_spokes := missing_spokes (m_statistics (m_ri r)) +
                    (if spoke = (prev + 1) mod 4096 then 0 else (spoke - prev - 1) mod 4096)\<rparr>\<rparr>\<rparr>
         \<and> (m_next_spoke r < 0 \<longrightarrow>
              missing_spokes (m_statistics (m_ri (track_spoke spoke r))) =
                missing_spokes (m_statistics (m_ri r)) \<and>
              track_spoke spoke r = r\<lparr>m_next_spoke := (spoke + 1) mod 4096\<rparr>)"
proof -
  let ?n = "(prev + 1) mod 4096"
  let ?gap = "if spoke = ?n then 0 else (spoke - prev - 1) mod 4096"
  let ?r' = "r\<lparr>m_next_spoke := (spoke + 1) mod 4096,
               m_ri := (m_ri r)\<lparr>m_statistics := (m_statistics (m_ri r))
                 \<lparr>missing_spokes := missing_spokes (m_statistics (m_ri r)) + ?gap\<rparr>\<rparr>\<rparr>"
  have n0: "0 \<le> ?n" by simp
  have whole: "track_spoke spoke (r\<lparr>m_next_spoke := ?n\<rparr>) = ?r'"
  proof (cases "spoke = ?n")
    case True
    then show ?thesis by (simp add: track_spoke_def add_missing_spokes_def SPOKES_def)
  next
    case ne: False
    show ?thesis
    proof (cases "?n < spoke")
      case True
      then show ?thesis using ne n0 gap_up[OF assms True]
        by (simp add: track_spoke_def add_missing_spokes_def SPOKES_def)
    next
      case False
      with ne have lt: "spoke < ?n" by simp
      show ?thesis using ne n0 False gap_down[OF assms lt]
        by (simp add: track_spoke_def add_missing_spokes_def SPOKES_def)
    qed
  qed
  have count: "missing_spokes (m_statistics (m_ri (track_spoke spoke (r\<lparr>m_next_spoke := ?n\<rparr>)))) =
                 missing_spokes (m_statistics (m_ri r)) + ?gap"
    unfolding whole by simp
  have nxt: "m_next_spoke (track_spoke spoke (r\<lparr>m_next_spoke := ?n\<rparr>)) = (spoke + 1) mod 4096"
    unfolding whole by simp
  have first: "missing_spokes (m_statistics (m_ri (track_spoke spoke r))) =
                 missing_spokes (m_statistics (m_ri r)) \<and>
               track_spoke spoke r = r\<lparr>m_next_spoke := (spoke + 1) mod 4096\<rparr>"
    if "m_next_spoke r < 0"
    using that by (simp add: track_spoke_def SPOKES_def)
  from count nxt whole first show ?thesis by blast
qed

theorem track_spoke_missing_count_witness:
  "(0 :: int) \<le> 4 \<and> (4 :: int) < 4096 \<and> (0 :: int) \<le> 4095 \<and> (4095 :: int) < 4096 \<and>
   (0 :: int) \<le> 0 \<and> (0 :: int) < 4096 \<and> (0 :: int) \<le> 7 \<and> (7 :: int) < 4096 \<and>
   missing_spokes (m_statistics (m_ri example_receiver)) = 0 \<and>
   m_next_spoke example_receiver < 0 \<and>
   missing_spokes (m_statistics (m_ri (track_spoke 0 (example_receiver\<lparr>m_next_spoke := 5\<rparr>)))) = 4091 \<and>
   m_next_spoke (track_spoke 0 (example_receiver\<lparr>m_next_spoke := 5\<rparr>)) = 1 \<and>
   missing_spokes (m_statistics (m_ri (track_spoke 7 (example_receiver\<lparr>m_next_spoke := 5\<rparr>)))) = 2 \<and>
   m_next_spoke (track_spoke 7 (example_receiver\<lparr>m_next_spoke := 5\<rparr>)) = 8 \<and>
   missing_spokes (m_statistics (m_ri (track_spoke 0 (example_receiver\<lparr>m_next_spoke := 0\<rparr>)))) = 0 \<and>
   m_next_spoke (track_spoke 0 (example_receiver\<lparr>m_next_spoke := 0\<rparr>)) = 1 \<and>
   missing_spokes (m_statistics (m_ri (track_spoke 0 example_receiver))) = 0 \<and>
   track_spoke 0 example_receiver = example_receiver\<lparr>m_next_spoke := 1\<rparr>"
proof -
  have m0: "missing_spokes (m_statistics (m_ri example_receiver)) = 0"
    and f: "m_next_spoke example_receiver < 0"
    by (simp_all add: example_receiver_def example_info_def)
  note a = track_spoke_missing_count[of 4 0 example_receiver]
  note b = track_spoke_missing_count[of 4 7 example_receiver]
  note c = track_spoke_missing_count[of 4095 0 example_receiver]
  from a have a': "missing_spokes (m_statistics (m_ri (track_spoke 0 (example_receiver\<lparr>m_next_spoke := 5\<rparr>)))) = 4091"
    "m_next_spoke (track_spoke 0 (example_receiver\<lparr>m_next_spoke := 5\<rparr>)) = 1"
    by (simp_all add: m0)
  from b have b': "missing_spokes (m_statistics (m_ri (track_spoke 7 (example_receiver\<lparr>m_next_spoke := 5\<rparr>)))) = 2"
    "m_next_spoke (track_spoke 7 (example_receiver\<lparr>m_next_spoke := 5\<rparr>)) = 8"
    by (simp_all add: m0)
  from c have c': "missing_spokes (m_statistics (m_ri (track_spoke 0 (example_receiver\<lparr>m_next_spoke := 0\<rparr>)))) = 0"
    "m_next_spoke (track_spoke 0 (example_receiver\<lparr>m_next_spoke := 0\<rparr>)) = 1"
    by (simp_all add: m0)
  from c f have d': "missing_spokes (m_statistics (m_ri (track_spoke 0 example_receiver))) = 0"
    "track_spoke 0 example_receiver = example_receiver\<lparr>m_next_spoke := 1\<rparr>"
    by (simp_all add: m0)
  from m0 f a' b' c' d' show ?thesis by simp
qed

text \<open>
  Claim C2, as stated, with a magnitude mask of 13 bits: the raw heading \<^verbatim>\<open>0x1000\<close> has no
  bit outside the 13-bit mask \<^verbatim>\<open>0x1FFF\<close> and the flag \<^verbatim>\<open>0x4000\<close>, and the code holds it to be
  invalid.
\<close>

theorem HEADING_VALID_13_bit_counterexample:
  "(0x1000 :: 16 word) AND NOT (0x4000 OR 0x1FFF) = 0 \<and> \<not> HEADING_VALID 0x1000"
  by (simp add: HEADING_VALID_def HEADING_TRUE_FLAG_def HEADING_MASK_def SPOKES_def)

text \<open>
  Claim C2, amended. For every 16-bit raw heading, the heading is valid exactly when all
  bits outside the 12-bit magnitude mask \<^verbatim>\<open>0x0FFF\<close> (\<^verbatim>\<open>SPOKES - 1\<close>) and the true-heading
  flag \<^verbatim>\<open>0x4000\<close> are zero. The raw value \<^verbatim>\<open>0x8000\<close> is invalid, \<^verbatim>\<open>0x07d6\<close> is valid with
  the flag clear, \<^verbatim>\<open>0x4000 | 0x07d6\<close> is valid with the flag set. For an invalid heading the
  decoder calls \<^verbatim>\<open>SetRadarHeading\<close> without a value, in the call itself and in the
  processing of a line that has the expected header length.
\<close>

theorem HEADING_VALID_12_bit:
  "(HEADING_VALID x \<longleftrightarrow> x AND NOT (0x4000 OR 0x0FFF) = 0) \<and>
   \<not> HEADING_VALID 0x8000 \<and>
   HEADING_VALID 0x07d6 \<and> \<not> heading_true 0x07d6 \<and>
   HEADING_VALID (0x4000 OR 0x07d6) \<and> heading_true (0x4000 OR 0x07d6) \<and>
   (\<not> HEADING_VALID x \<longrightarrow> radar_heading_call ignore x = SetRadarHeadingNone) \<and>
   (data ! (sizeof_frame_hdr + n * sizeof_radar_line p) = 0x18 \<and>
    \<not> HEADING_VALID (short_of_bytes (data ! (sizeof_frame_hdr + n * sizeof_radar_line p + 10))
                                     (data ! (sizeof_frame_hdr + n * sizeof_radar_line p + 11))) \<longrightarrow>
      heading_calls (ProcessFrame_line p e data n r) = SetRadarHeadingNone # heading_calls r)"
proof -
  have m: "NOT (0x4000 OR 0x0FFF) = (0xB000 :: 16 word)" by simp
  have a: "HEADING_VALID x \<longleftrightarrow> x AND NOT (0x4000 OR 0x0FFF) = 0"
    unfolding m by (rule HEADING_VALID_bits)
  have b: "\<not> HEADING_VALID 0x8000" "HEADING_VALID 0x07d6" "\<not> heading_true 0x07d6"
    "HEADING_VALID (0x4000 OR 0x07d6)" "heading_true (0x4000 OR 0x07d6)"
    by (simp_all add: HEADING_VALID_def heading_true_def HEADING_TRUE_FLAG_def HEADING_MASK_def
        SPOKES_def)
  have c: "radar_heading_call ignore y = SetRadarHeadingNone" if "\<not> HEADING_VALID y" for y
    using that by (simp add: radar_heading_call_def)
  have d: "heading_calls (ProcessFrame_line p e data n r) = SetRadarHeadingNone # heading_calls r"
    if "data ! (sizeof_frame_hdr + n * sizeof_radar_line p) = 0x18"
      and "\<not> HEADING_VALID (short_of_bytes (data ! (sizeof_frame_hdr + n * sizeof_radar_line p + 10))
                                            (data ! (sizeof_frame_hdr + n * sizeof_radar_line p + 11)))"
    using ProcessFrame_line_spoke(2)[OF that(1)] that(2) by (simp add: radar_heading_call_def)
  from a b c d show ?thesis by blast
qed

theorem HEADING_VALID_12_bit_witness:
  "\<not> HEADING_VALID 0x8000 \<and>
   example_frame_no_heading ! (sizeof_frame_hdr + 0 * sizeof_radar_line example_platform) = 0x18 \<and>
   short_of_bytes (example_frame_no_heading ! (sizeof_frame_hdr + 0 * sizeof_radar_line example_platform + 10))
                  (example_frame_no_heading ! (sizeof_frame_hdr + 0 * sizeof_radar_line example_platform + 11)) = 0x8000 \<and>
   radar_heading_call False 0x8000 = SetRadarHeadingNone \<and>
   heading_calls (ProcessFrame_line example_platform example_env example_frame_no_heading 0 example_receiver) =
     [SetRadarHeadingNone]"
proof -
  have i: "example_frame_no_heading ! (sizeof_frame_hdr + 0 * sizeof_radar_line example_platform) = 0x18"
    by (simp add: example_frame_no_heading_def sizeof_frame_hdr_def nth_append)
  have h: "short_of_bytes (example_frame_no_heading ! (sizeof_frame_hdr + 0 * sizeof_radar_line example_platform + 10))
                  (example_frame_no_heading ! (sizeof_frame_hdr + 0 * sizeof_radar_line example_platform + 11)) = 0x8000"
    by (simp add: example_frame_no_heading_def sizeof_frame_hdr_def nth_append short_of_bytes_def
        int_of_bytes_def)
  note t = HEADING_VALID_12_bit[of "0x8000" False example_frame_no_heading 0 example_platform
      example_env example_receiver]
  from t have v: "\<not> HEADING_VALID 0x8000" by blast
  from t v have c: "radar_heading_call False 0x8000 = SetRadarHeadingNone" by blast
  from t i h v have "heading_calls (ProcessFrame_line example_platform example_env example_frame_no_heading 0 example_receiver) =
     SetRadarHeadingNone # heading_calls example_receiver" by simp
  then have l: "heading_calls (ProcessFrame_line example_platform example_env example_frame_no_heading 0 example_receiver) =
     [SetRadarHeadingNone]" by (simp add: example_receiver_def)
  from v i h c l show ?thesis by blast
qed

text \<open>
  Claim C3. For every spoke line decoded in the newer layout (its bytes 4 to 7 are not the
  BR24 mark): with the 16-bit fields read as \<^verbatim>\<open>short int\<close>, if the large-range field
  equals the sentinel \<^verbatim>\<open>0x80\<close> then the raw range is the small-range field, unless that is
  the sentinel \<open>-1\<close>, in which case the raw range is 0; otherwise the raw range is the
  large-range field times 256; the range in meters is the raw range divided by 4. Large
  range \<^verbatim>\<open>0x80\<close> with small range 400 gives 400 and 100 meters, with small range \<open>-1\<close> it
  gives 0, and large range 10 gives 2560 and 640 meters.
\<close>

theorem decode_range_angle_br4g:
  assumes "[data ! (off + 4), data ! (off + 5), data ! (off + 6), data ! (off + 7)] \<noteq> BR24MARK"
  shows "decode_range_angle p data off =
           (let large_range = sint (short_of_bytes (data ! (off + 6)) (data ! (off + 7)));
                small_range = sint (short_of_bytes (data ! (off + 12)) (data ! (off + 13)));
                range_raw = (if large_range = 0x80
                             then (if small_range = - 1 then 0 else small_range)
                             else large_range * 256)
            in (range_raw, int_of_bytes (data ! (off + 8)) (data ! (off + 9)), c_div range_raw 4))
         \<and> br4g_range_raw 0x80 400 = 400 \<and> c_div 400 4 = 100
         \<and> br4g_range_raw 0x80 (- 1) = 0 \<and> c_div 0 4 = 0
         \<and> br4g_range_raw 10 small = 2560 \<and> c_div 2560 4 = 640"
  using assms
  by (simp add: decode_range_angle_def br4g_range_raw_def Let_def c_div_def)

theorem decode_range_angle_br4g_witness:
  "[example_br4g_line 0x80 0x00 0x90 0x01 ! (0 + 4), example_br4g_line 0x80 0x00 0x90 0x01 ! (0 + 5),
    example_br4g_line 0x80 0x00 0x90 0x01 ! (0 + 6), example_br4g_line 0x80 0x00 0x90 0x01 ! (0 + 7)]
     \<noteq> BR24MARK
   \<and> decode_range_angle example_platform (example_br4g_line 0x80 0x00 0x90 0x01) 0 = (400, 32, 100)
   \<and> decode_range_angle example_platform (example_br4g_line 0x80 0x00 0xff 0xff) 0 = (0, 32, 0)
   \<and> decode_range_angle example_platform (example_br4g_line 0x0a 0x00 0x00 0x00) 0 = (2560, 32, 640)"
  using decode_range_angle_br4g[of "example_br4g_line 0x80 0x00 0x90 0x01" 0 example_platform]
    decode_range_angle_br4g[of "example_br4g_line 0x80 0x00 0xff 0xff" 0 example_platform]
    decode_range_angle_br4g[of "example_br4g_line 0x0a 0x00 0x00 0x00" 0 example_platform]
  by (simp add: example_br4g_line_def BR24MARK_def br4g_line_fields int_of_bytes_def c_div_def)

text \<open>
  Claim C4, at a report datagram of one byte and at an identification report without
  terminated firmware texts. \<^verbatim>\<open>ProcessReport\<close> tests \<^verbatim>\<open>report[1]\<close> before it looks at
  \<^verbatim>\<open>len\<close>: two receive buffers that agree on the one byte of the datagram and differ in
  the byte left over at index 1 are classified differently. \<^verbatim>\<open>AppendChar16String\<close> scans
  for a zero code unit without a bound: two buffers that agree on the 129 bytes of the
  datagram and differ in the byte left over at index 129 give different build texts.
\<close>

theorem ProcessReport_reads_past_len:
  "take 1 (example_buffer_1 0xC4) = take 1 (example_buffer_1 0x00) \<and>
   length (example_buffer_1 0xC4) = sizeof_radar_frame_pkt example_platform \<and>
   length (example_buffer_1 0x00) = sizeof_radar_frame_pkt example_platform \<and>
   map_option fst (ProcessReport example_platform 1000 (example_buffer_1 0xC4) 1 example_receiver)
     = Some True \<and>
   map_option fst (ProcessReport example_platform 1000 (example_buffer_1 0x00) 1 example_receiver)
     = Some False \<and>
   take 129 (example_buffer_129 0x41) = take 129 (example_buffer_129 0x42) \<and>
   length (example_buffer_129 0x41) = sizeof_radar_frame_pkt example_platform \<and>
   length (example_buffer_129 0x42) = sizeof_radar_frame_pkt example_platform \<and>
   map_option (last \<circ> the \<circ> radar_build_info \<circ> snd)
     (ProcessReport example_platform 1000 (example_buffer_129 0x41) 129 example_receiver)
     = Some 0x4101 \<and>
   map_option (last \<circ> the \<circ> radar_build_info \<circ> snd)
     (ProcessReport example_platform 1000 (example_buffer_129 0x42) 129 example_receiver)
     = Some 0x4201"
proof -
  have one: "take 1 (example_buffer_1 0xC4) = take 1 (example_buffer_1 0x00)"
    "length (example_buffer_1 0xC4) = sizeof_radar_frame_pkt example_platform"
    "length (example_buffer_1 0x00) = sizeof_radar_frame_pkt example_platform"
    "map_option fst (ProcessReport example_platform 1000 (example_buffer_1 0xC4) 1 example_receiver)
       = Some True"
    "map_option fst (ProcessReport example_platform 1000 (example_buffer_1 0x00) 1 example_receiver)
       = Some False"
    by (simp_all add: example_buffer_1_def ProcessReport_def report_path_def Let_def
        sizeof_radar_frame_pkt_def sizeof_radar_line_def sizeof_frame_hdr_def example_platform_def)
  have id: "take 129 (example_buffer_129 0x41) = take 129 (example_buffer_129 0x42)"
    "length (example_buffer_129 0x41) = sizeof_radar_frame_pkt example_platform"
    "length (example_buffer_129 0x42) = sizeof_radar_frame_pkt example_platform"
    by (simp_all add: example_buffer_129_def sizeof_radar_frame_pkt_def sizeof_radar_line_def
        sizeof_frame_hdr_def example_platform_def)
  have scan: "map_option (last \<circ> the \<circ> radar_build_info \<circ> snd)
       (ProcessReport example_platform 1000 (example_buffer_129 0x41) 129 example_receiver)
       = Some 0x4101"
    "map_option (last \<circ> the \<circ> radar_build_info \<circ> snd)
       (ProcessReport example_platform 1000 (example_buffer_129 0x42) 129 example_receiver)
       = Some 0x4201"
    by (simp_all add: example_buffer_129_def ProcessReport_def report_path_def report_03C4_129_def
        AppendChar16String_def short_of_bytes_def int_of_bytes_def Let_def wxT_def)
  from one id scan show ?thesis by blast
qed

text \<open>
  Claim C5, as stated: a receiver whose last recorded radar status is \<^verbatim>\<open>0x02\<close> and whose
  operating state is OFF (the watchdog has fired since) gets an operating-status report
  with status \<^verbatim>\<open>0x02\<close>; the state stays OFF.
\<close>

theorem ProcessReport_same_status_counterexample:
  "example_report_01C4_18 0x02 ! 2 = 0x02 \<and>
   ProcessReport example_platform 1000 (example_report_01C4_18 0x02) 18
     (example_receiver\<lparr>m_radar_status := 2\<rparr>) \<noteq> None \<and>
   value_item (m_state (m_ri (snd (the
     (ProcessReport example_platform 1000 (example_report_01C4_18 0x02) 18
        (example_receiver\<lparr>m_radar_status := 2\<rparr>)))))) = RADAR_OFF"
  by (simp add: ProcessReport_def report_path_def Let_def example_report_01C4_18_def
      report_01C4_18_def example_receiver_def example_info_def new_item_def)

text \<open>
  Claim C5, amended. For every operating-status report (length 18, type byte \<^verbatim>\<open>0x01\<close>,
  family byte \<^verbatim>\<open>0xC4\<close>) whose status byte differs from the radar status recorded last, the
  status byte \<^verbatim>\<open>0x01\<close> yields STANDBY, \<^verbatim>\<open>0x02\<close> yields TRANSMIT, \<^verbatim>\<open>0x05\<close> yields WAKING_UP,
  and any other value leaves the operating state as it was; the data-timeout deadline is
  refreshed for \<^verbatim>\<open>0x05\<close> and for no other value. A report whose status byte equals the
  recorded one changes neither the operating state nor the data-timeout deadline. The
  status byte is recorded in both cases.
\<close>

theorem ProcessReport_01C4_18_state:
  assumes "report ! 0 = 0x01" "report ! 1 = 0xC4"
  shows "\<exists>r'. ProcessReport p now report 18 r = Some (True, r') \<and>
           value_item (m_state (m_ri r')) =
             (if uint (report ! 2) = m_radar_status r then value_item (m_state (m_ri r))
              else if report ! 2 = 0x01 then RADAR_STANDBY
              else if report ! 2 = 0x02 then RADAR_TRANSMIT
              else if report ! 2 = 0x05 then RADAR_WAKING_UP
              else value_item (m_state (m_ri r))) \<and>
           m_data_timeout (m_ri r') =
             (if uint (report ! 2) \<noteq> m_radar_status r \<and> report ! 2 = 0x05
              then now + DATA_TIMEOUT p else m_data_timeout (m_ri r)) \<and>
           m_radar_status r' = uint (report ! 2)"
proof -
  have u: "uint (report ! 2) = 1 \<longleftrightarrow> report ! 2 = 1" "uint (report ! 2) = 2 \<longleftrightarrow> report ! 2 = 2"
    "uint (report ! 2) = 5 \<longleftrightarrow> report ! 2 = 5"
    by (simp_all add: word_uint_eq_iff)
  define r1 where "r1 = m_ri_update (m_radar_timeout_update (\<lambda>_. now + WATCHDOG_TIMEOUT p)) r"
  have p: "report_path 18 (report ! 0) (report ! 1) = PATH_01C4_18"
    using assms by (simp add: report_path_C4)
  have run: "ProcessReport p now report 18 r = Some (True, report_01C4_18 p now report r1)"
    unfolding ProcessReport_def Let_def p r1_def by simp
  show ?thesis
    apply (rule exI[of _ "report_01C4_18 p now report r1"])
    unfolding run
    by (simp add: report_01C4_18_def Let_def Update_def u r1_def)
qed

theorem ProcessReport_01C4_18_state_witness:
  "example_report_01C4_18 0x05 ! 0 = 0x01 \<and> example_report_01C4_18 0x05 ! 1 = 0xC4 \<and>
   example_report_01C4_18 0x05 ! 2 = 0x05 \<and> m_radar_status example_receiver = 0 \<and>
   map_option (\<lambda>res. (fst res, value_item (m_state (m_ri (snd res))), m_data_timeout (m_ri (snd res)),
                       m_radar_status (snd res)))
     (ProcessReport example_platform 1000 (example_report_01C4_18 0x05) 18 example_receiver)
     = Some (True, RADAR_WAKING_UP, 1005, 5)"
proof -
  have h: "example_report_01C4_18 0x05 ! 0 = 0x01" "example_report_01C4_18 0x05 ! 1 = 0xC4"
    "example_report_01C4_18 0x05 ! 2 = 0x05"
    by (simp_all add: example_report_01C4_18_def)
  have s: "m_radar_status example_receiver = 0" by (simp add: example_receiver_def)
  from ProcessReport_01C4_18_state[OF h(1,2), of example_platform 1000 example_receiver]
  obtain r' where r': "ProcessReport example_platform 1000 (example_report_01C4_18 0x05) 18
      example_receiver = Some (True, r')"
    "value_item (m_state (m_ri r')) = RADAR_WAKING_UP"
    "m_data_timeout (m_ri r') = 1005" "m_radar_status r' = 5"
    unfolding h s by (auto simp add: example_platform_def)
  from h s r' show ?thesis by simp
qed

text \<open>
  Claim C6, as stated: the loop after a read error on the report socket, with no
  interface to open since: the report socket is invalid, a radar address is still set and
  the operating state is STANDBY. The wait times out with the no-data counter at its
  threshold; the state stays STANDBY and the radar address stays set.
\<close>

theorem select_timeout_closed_report_socket_counterexample:
  "no_data_timeout example_loop_no_report_socket \<ge> SECONDS_SELECT 2 \<and>
   value_item (m_state (m_ri (receiver (select_timeout example_loop_no_report_socket)))) = RADAR_STANDBY \<and>
   radar_addr (select_timeout example_loop_no_report_socket) \<noteq> None"
  by (simp add: SECONDS_SELECT_2 example_loop_no_report_socket_def example_loop_def select_timeout_def
      no_data_watchdog_def no_spoke_watchdog_def ResetRadarImage_def Let_def Update_def
      example_receiver_def example_info_def new_item_def)

text \<open>
  Claim C6, amended. In the timeout branch of the receive loop the threshold of both
  counters is \<^verbatim>\<open>SECONDS_SELECT(2)\<close>, eight quanta of 250 ms. When the no-data counter has
  reached it, the counter is reset and, if the report socket is open, that socket is
  closed, the operating state is forced to OFF and the detected-radar address is cleared;
  if the report socket is not open, the operating state and the radar address stay as they
  are. Independently, when the no-spoke counter has reached the threshold, that counter is
  reset and the rendered image is reset, which does not alter the operating state.
\<close>

theorem select_timeout_watchdogs:
  "SECONDS_SELECT 2 = 8 \<and>
   (no_data_timeout s \<ge> 8 \<longrightarrow>
      no_data_timeout (select_timeout s) = 0 \<and>
      reportSocket (select_timeout s) = None \<and>
      (case reportSocket s of
         Some fd \<Rightarrow>
           closed_sockets (select_timeout s) = fd # closed_sockets s \<and>
           value_item (m_state (m_ri (receiver (select_timeout s)))) = RADAR_OFF \<and>
           radar_addr (select_timeout s) = None
       | None \<Rightarrow>
           closed_sockets (select_timeout s) = closed_sockets s \<and>
           m_state (m_ri (receiver (select_timeout s))) = m_state (m_ri (receiver s)) \<and>
           radar_addr (select_timeout s) = radar_addr s)) \<and>
   (no_spoke_timeout s \<ge> 8 \<longrightarrow>
      no_spoke_timeout (select_timeout s) = 0 \<and>
      image_resets (m_ri (receiver (select_timeout s))) = image_resets (m_ri (receiver s)) + 1 \<and>
      m_state (m_ri (receiver (no_spoke_watchdog s))) = m_state (m_ri (receiver s)))"
  by (simp add: SECONDS_SELECT_2 select_timeout_def no_data_watchdog_def no_spoke_watchdog_def
      ResetRadarImage_def Let_def Update_def split: option.splits)

theorem select_timeout_watchdogs_witness:
  "no_data_timeout example_loop \<ge> 8 \<and> no_spoke_timeout example_loop \<ge> 8 \<and>
   reportSocket example_loop = Some 5 \<and>
   reportSocket (select_timeout example_loop) = None \<and>
   closed_sockets (select_timeout example_loop) = [5] \<and>
   value_item (m_state (m_ri (receiver (select_timeout example_loop)))) = RADAR_OFF \<and>
   radar_addr (select_timeout example_loop) = None \<and>
   image_resets (m_ri (receiver (select_timeout example_loop))) = 1"
  using select_timeout_watchdogs[of example_loop]
  by (simp add: example_loop_def example_receiver_def example_info_def)

text \<open>
  Claim C7. For every report datagram whose pair of declared length and first byte is
  outside the known set, the dispatcher returns normally and changes nothing of the
  receiver but the radar-presence deadline: no ControlValue and no operating state. It
  returns true for the two report families (second byte \<^verbatim>\<open>0xC4\<close> or \<^verbatim>\<open>0xF5\<close>) and false for
  any other second byte. The branch taken is a function of the length, the first byte and
  the second byte alone, and for such a datagram it is one of the three branches that
  decode nothing.
\<close>

theorem ProcessReport_unknown_key:
  assumes "(len, report ! 0) \<notin> known_report_keys"
  shows "ProcessReport p now report len r =
           Some (report ! 1 = 0xC4 \<or> report ! 1 = 0xF5,
                 m_ri_update (m_radar_timeout_update (\<lambda>_. now + WATCHDOG_TIMEOUT p)) r)
         \<and> report_path len (report ! 0) (report ! 1) =
             (if report ! 1 = 0xC4 then PATH_C4_default
              else if report ! 1 = 0xF5 then PATH_F5 else PATH_unknown_message)"
proof (cases "report ! 1 = 0xC4")
  case True
  from assms have "report_path len (report ! 0) 0xC4 = PATH_C4_default"
    unfolding report_path_C4 by (simp add: known_report_keys_def)
  with True show ?thesis by (simp add: ProcessReport_def)
next
  case False
  then show ?thesis by (simp add: ProcessReport_def report_path_def)
qed

theorem ProcessReport_unknown_key_witness:
  "(17, example_report_01C4_18 0x02 ! 0) \<notin> known_report_keys \<and>
   ProcessReport example_platform 1000 (example_report_01C4_18 0x02) 17 example_receiver =
     Some (True, m_ri_update (m_radar_timeout_update (\<lambda>_. 1010)) example_receiver) \<and>
   report_path 17 (example_report_01C4_18 0x02 ! 0) (example_report_01C4_18 0x02 ! 1) = PATH_C4_default"
proof -
  have k: "(17, example_report_01C4_18 0x02 ! 0) \<notin> known_report_keys"
    by (simp add: known_report_keys_def example_report_01C4_18_def)
  have b: "example_report_01C4_18 0x02 ! 1 = 0xC4" by (simp add: example_report_01C4_18_def)
  from ProcessReport_unknown_key[OF k, of example_platform 1000 example_receiver] k b
  show ?thesis by (simp add: example_platform_def)
qed

text \<open>
  Claim C8, as stated: a bearing/antenna report whose bearing-alignment field is
  \<^verbatim>\<open>0xFFFF\<close>, which is \<open>-1\<close> tenth of a degree when read as a signed value. The code reads
  the field as unsigned and stores 6193, outside the interval from \<open>-180\<close> to 180.
\<close>

theorem ProcessReport_bearing_unsigned_counterexample:
  "UINT16_at (example_report_04C4_66 0xFF 0xFF 0xE8 0x03) 6 = 65535 \<and>
   ProcessReport example_platform 1000 (example_report_04C4_66 0xFF 0xFF 0xE8 0x03) 66
     example_receiver \<noteq> None \<and>
   value_item (m_bearing_alignment (m_ri (snd (the
     (ProcessReport example_platform 1000 (example_report_04C4_66 0xFF 0xFF 0xE8 0x03) 66
        example_receiver))))) = 6193"
  by (simp add: ProcessReport_def report_path_def Let_def example_report_04C4_66_def
      report_04C4_66_def UINT16_at_def c_div_def Update_def example_receiver_def example_info_def
      new_item_def)

text \<open>
  Claim C8, amended. For every bearing/antenna report (length 66, type byte \<^verbatim>\<open>0x04\<close>,
  family byte \<^verbatim>\<open>0xC4\<close>), the bearing-alignment field is read as an unsigned 16-bit value in
  tenths of a degree; the value stored in the bearing-alignment ControlValue is the field
  divided by 10, less 360 if that exceeds 180; it lies in the interval from \<open>-180\<close>
  (exclusive) to 180 (inclusive) exactly when the field is below 5410, so for every field
  value from 0 to 3599. The antenna-height field in millimeters is converted to meters by
  integer division by 1000.
\<close>

theorem ProcessReport_04C4_66_values:
  assumes "report ! 0 = 0x04" "report ! 1 = 0xC4"
  shows "\<exists>r'. ProcessReport p now report 66 r = Some (True, r') \<and>
           value_item (m_bearing_alignment (m_ri r')) =
             (if UINT16_at report 6 div 10 > 180 then UINT16_at report 6 div 10 - 360
              else UINT16_at report 6 div 10) \<and>
           (- 180 < value_item (m_bearing_alignment (m_ri r')) \<and>
            value_item (m_bearing_alignment (m_ri r')) \<le> 180 \<longleftrightarrow> UINT16_at report 6 < 5410) \<and>
           value_item (m_antenna_height (m_ri r')) = UINT16_at report 10 div 1000"
proof -
  define r1 where "r1 = m_ri_update (m_radar_timeout_update (\<lambda>_. now + WATCHDOG_TIMEOUT p)) r"
  define x where "x = UINT16_at report 6"
  have p: "report_path 66 (report ! 0) (report ! 1) = PATH_04C4_66"
    using assms by (simp add: report_path_C4)
  have run: "ProcessReport p now report 66 r = Some (True, report_04C4_66 report r1)"
    unfolding ProcessReport_def Let_def p r1_def by simp
  have d: "c_div (UINT16_at report 6) 10 = x div 10"
    "c_div (UINT16_at report 10) 1000 = UINT16_at report 10 div 1000"
    by (simp_all add: c_div_nonneg UINT16_at_range x_def)
  have ba: "value_item (m_bearing_alignment (m_ri (report_04C4_66 report r1))) =
              (if x div 10 > 180 then x div 10 - 360 else x div 10)"
    by (simp add: report_04C4_66_def Let_def Update_def d)
  have ah: "value_item (m_antenna_height (m_ri (report_04C4_66 report r1))) =
              UINT16_at report 10 div 1000"
    by (simp add: report_04C4_66_def Let_def Update_def d)
  have "0 \<le> x" by (simp add: x_def UINT16_at_range)
  then have rng: "(- 180 < (if x div 10 > 180 then x div 10 - 360 else x div 10) \<and>
            (if x div 10 > 180 then x div 10 - 360 else x div 10) \<le> 180) \<longleftrightarrow> x < 5410"
    by auto
  show ?thesis
    apply (rule exI[of _ "report_04C4_66 report r1"])
    unfolding ba ah run
    using rng by (simp add: x_def)
qed

theorem ProcessReport_04C4_66_values_witness:
  "example_report_04C4_66 0x06 0x0E 0xE8 0x03 ! 0 = 0x04 \<and>
   example_report_04C4_66 0x06 0x0E 0xE8 0x03 ! 1 = 0xC4 \<and>
   UINT16_at (example_report_04C4_66 0x06 0x0E 0xE8 0x03) 6 = 3590 \<and>
   UINT16_at (example_report_04C4_66 0x06 0x0E 0xE8 0x03) 10 = 1000 \<and>
   map_option (\<lambda>res. (fst res, value_item (m_bearing_alignment (m_ri (snd res))),
                       value_item (m_antenna_height (m_ri (snd res)))))
     (ProcessReport example_platform 1000 (example_report_04C4_66 0x06 0x0E 0xE8 0x03) 66
        example_receiver) = Some (True, - 1, 1)"
proof -
  have h: "example_report_04C4_66 0x06 0x0E 0xE8 0x03 ! 0 = 0x04"
    "example_report_04C4_66 0x06 0x0E 0xE8 0x03 ! 1 = 0xC4"
    by (simp_all add: example_report_04C4_66_def)
  have f: "UINT16_at (example_report_04C4_66 0x06 0x0E 0xE8 0x03) 6 = 3590"
    "UINT16_at (example_report_04C4_66 0x06 0x0E 0xE8 0x03) 10 = 1000"
    by (simp_all add: example_report_04C4_66_def UINT16_at_def)
  from ProcessReport_04C4_66_values[OF h, of example_platform 1000 example_receiver]
  obtain r' where r': "ProcessReport example_platform 1000
      (example_report_04C4_66 0x06 0x0E 0xE8 0x03) 66 example_receiver = Some (True, r')"
    "value_item (m_bearing_alignment (m_ri r')) = - 1"
    "value_item (m_antenna_height (m_ri r')) = 1"
    unfolding f by auto
  from h f r' show ?thesis by simp
qed




text \<open>
  Claim C10. Every call of the spoke-frame decoder, whatever the datagram and its length,
  sets the operating state to TRANSMIT, sets the radar-presence deadline and the data
  deadline from the current time, and adds one to the packet counter. A datagram shorter
  than the 8-byte frame header is counted as a broken packet as well, and no spoke is
  processed for it.
\<close>

theorem ProcessFrame_prologue:
  "value_item (m_state (m_ri (ProcessFrame p e data len r))) = RADAR_TRANSMIT \<and>
   m_radar_timeout (m_ri (ProcessFrame p e data len r)) = env_now e + WATCHDOG_TIMEOUT p \<and>
   m_data_timeout (m_ri (ProcessFrame p e data len r)) = env_now e + DATA_TIMEOUT p \<and>
   packets (m_statistics (m_ri (ProcessFrame p e data len r))) = packets (m_statistics (m_ri r)) + 1 \<and>
   (len < 8 \<longrightarrow>
      broken_packets (m_statistics (m_ri (ProcessFrame p e data len r))) =
        broken_packets (m_statistics (m_ri r)) + 1 \<and>
      spokes (m_statistics (m_ri (ProcessFrame p e data len r))) = spokes (m_statistics (m_ri r)) \<and>
      radar_spokes (m_ri (ProcessFrame p e data len r)) = radar_spokes (m_ri r))"
proof (cases "len < int sizeof_frame_hdr")
  case True
  then show ?thesis
    by (simp add: ProcessFrame_def Let_def Update_def sizeof_frame_hdr_def)
next
  case False
  define r4 where "r4 = fold (ProcessFrame_line p e data)
      [0..<(nat len - sizeof_frame_hdr) div sizeof_radar_line p]"
  have keep: "m_state (m_ri (r4 x)) = m_state (m_ri x)"
    "m_radar_timeout (m_ri (r4 x)) = m_radar_timeout (m_ri x)"
    "m_data_timeout (m_ri (r4 x)) = m_data_timeout (m_ri x)"
    "packets (m_statistics (m_ri (r4 x))) = packets (m_statistics (m_ri x))" for x
    unfolding r4_def using fold_line_keeps[of p e data _ x] by simp_all
  from False have "\<not> len < 8" by (simp add: sizeof_frame_hdr_def)
  with False show ?thesis
    unfolding ProcessFrame_def Let_def r4_def[symmetric]
    by (simp add: keep Update_def)
qed

theorem ProcessFrame_prologue_witness:
  "(3 :: int) < 8 \<and>
   value_item (m_state (m_ri example_receiver)) = RADAR_OFF \<and>
   value_item (m_state (m_ri (ProcessFrame example_platform example_env [0x01, 0x02, 0x03] 3 example_receiver))) = RADAR_TRANSMIT \<and>
   m_radar_timeout (m_ri (ProcessFrame example_platform example_env [0x01, 0x02, 0x03] 3 example_receiver)) = 1010 \<and>
   m_data_timeout (m_ri (ProcessFrame example_platform example_env [0x01, 0x02, 0x03] 3 example_receiver)) = 1005 \<and>
   packets (m_statistics (m_ri (ProcessFrame example_platform example_env [0x01, 0x02, 0x03] 3 example_receiver))) = 1 \<and>
   broken_packets (m_statistics (m_ri (ProcessFrame example_platform example_env [0x01, 0x02, 0x03] 3 example_receiver))) = 1"
  using ProcessFrame_prologue[of example_platform example_env "[0x01, 0x02, 0x03]" 3 example_receiver]
  by (simp add: example_receiver_def example_info_def example_env_def example_platform_def new_item_def)

end
